theory Spec2Isabelle
  imports Complex_Main
begin

section \<open>Data model of \<^verbatim>\<open>selfdrive/car/toyota/carcontroller.py\<close>\<close>

text \<open>
  Python floats are idealised as \<^typ>\<open>real\<close>, Python ints are \<^typ>\<open>int\<close>, byte strings are
  lists of byte values. The enumerations of \<^verbatim>\<open>cereal\<close> are datatypes; the controller
  only ever compares against \<^verbatim>\<open>SteerControlType.angle\<close>, \<^verbatim>\<open>GearShifter.park\<close>,
  \<^verbatim>\<open>GearShifter.drive\<close> and three members of \<^verbatim>\<open>VisualAlert\<close>.
\<close>

type_synonym bytes = "nat list"

datatype SteerControlType = torque | angle

datatype VisualAlert =
  none | fcw | steerRequired | brakePressed | wrongGear | seatbeltUnbuckled | speedTooHigh | ldw

datatype GearShifter =
  unknown | park | drive | neutral | reverse | sport | low | brake | eco | manumatic

text \<open>
  \<^verbatim>\<open>values.CAR\<close>: the members \<^verbatim>\<open>update\<close> names, and \<open>OTHER\<close> for every other
  fingerprint string.
\<close>

datatype CAR = RAV4 | RAV4H | HIGHLANDER | HIGHLANDERH | COROLLA | PRIUS_V | OTHER string

datatype error = ZeroDivisionError

record CarParams =
  steerControlType :: SteerControlType
  carFingerprint :: CAR
  enableGasInterceptor :: bool
  openpilotLongitudinalControl :: bool
  enableDsu :: bool

record CarControllerParams =
  STEER_MAX :: int
  ACCEL_MIN :: real
  ACCEL_MAX :: real

record Params =
  p_dp_toyota_auto_lock :: bool
  p_dp_toyota_auto_unlock :: bool
  p_dp_toyota_sng :: bool

record Actuators =
  steer :: real
  steeringAngleDeg :: real
  accel :: real
  gas :: real
  steerOutputCan :: int

record HUDControl =
  visualAlert :: VisualAlert
  leadVisible :: bool
  leftLaneVisible :: bool
  rightLaneVisible :: bool
  leftLaneDepart :: bool
  rightLaneDepart :: bool

record CruiseControl =
  cancel :: bool

record CarControl =
  enabled :: bool
  latActive :: bool
  longActive :: bool
  actuators :: Actuators
  hudControl :: HUDControl
  cruiseControl :: CruiseControl

record CarState_out =
  steeringTorque :: real
  steeringTorqueEps :: real
  steeringRateDeg :: real
  steeringAngleDeg :: real
  steeringAngleOffsetDeg :: real
  vEgo :: real
  standstill :: bool
  gearShifter :: GearShifter
  doorOpen :: bool

record CarState =
  out :: CarState_out
  pcm_acc_status :: int
  acc_type :: int
  lkas_hud :: "(string \<times> int) list"

text \<open>
  The bus messages. \<^verbatim>\<open>make_can_msg\<close> and the encoders of \<^verbatim>\<open>toyotacan\<close> are the external
  frame encoder: a message is the encoder call that made it, with its arguments (the
  packer, the same object in every call, is left out).
\<close>

datatype can_msg =
    make_can_msg int bytes int
  | create_steer_command int int
  | create_lta_steer_command real bool int int
  | create_accel_command real bool bool bool int
  | create_acc_cancel_command
  | create_gas_interceptor_command real int
  | create_ui_command bool bool bool bool bool bool bool "(string \<times> int) list"
  | create_fcw_command bool

text \<open>
  What the module imports from \<^verbatim>\<open>selfdrive.car.toyota.values\<close> and \<^verbatim>\<open>selfdrive.car\<close>:
  the vehicle tables, two speed constants and the two limit functions. They are
  parameters of the model.
\<close>

record externals =
  TSS2_CAR :: "CAR set"
  NO_STOP_TIMER_CAR :: "CAR set"
  UNSUPPORTED_DSU_CAR :: "CAR set"
  STATIC_DSU_MSGS :: "(int \<times> CAR set \<times> int \<times> int \<times> bytes) list"
  MIN_ACC_SPEED :: real
  PEDAL_TRANSITION :: real
  apply_meas_steer_torque_limits :: "int \<Rightarrow> int \<Rightarrow> real \<Rightarrow> CarControllerParams \<Rightarrow> int"
  apply_std_steer_angle_limits :: "real \<Rightarrow> real \<Rightarrow> real \<Rightarrow> CarControllerParams \<Rightarrow> real"

record CarController =
  CP :: CarParams
  params :: CarControllerParams
  frame :: int
  last_steer :: int
  last_angle :: real
  alert_active :: bool
  last_standstill :: bool
  standstill_req :: bool
  steer_rate_counter :: int
  gas :: real
  accel :: real
  dp_toyota_auto_lock_gear_prev :: GearShifter
  dp_toyota_auto_lock_once :: bool
  dp_toyota_auto_lock :: bool
  dp_toyota_auto_unlock :: bool
  dp_toyota_sng :: bool

section \<open>Constants and helpers\<close>

definition MAX_STEER_RATE :: real where
  "MAX_STEER_RATE = 100"

definition MAX_STEER_RATE_FRAMES :: int where
  "MAX_STEER_RATE_FRAMES = 18"

definition MAX_USER_TORQUE :: real where
  "MAX_USER_TORQUE = 500"

definition MAX_STEER_ANGLE :: real where
  "MAX_STEER_ANGLE = 94.9461"

definition MAX_DRIVER_TORQUE_ALLOWANCE :: real where
  "MAX_DRIVER_TORQUE_ALLOWANCE = 150"

definition UNLOCK_CMD :: bytes where
  "UNLOCK_CMD = [0x40, 0x05, 0x30, 0x11, 0x00, 0x40, 0x00, 0x00]"

definition LOCK_CMD :: bytes where
  "LOCK_CMD = [0x40, 0x05, 0x30, 0x11, 0x00, 0x80, 0x00, 0x00]"

text \<open>
  Modelled from the spec: \<^verbatim>\<open>CV.KPH_TO_MS\<close> of \<^verbatim>\<open>common.conversions\<close> is not among the
  sources. The spec calls the lock threshold "10 km/h equivalent" of a speed in m/s, so
  the factor is \<open>1 / 3.6\<close>.
\<close>

definition KPH_TO_MS :: real where
  "KPH_TO_MS = 1 / 3.6"

definition LOCK_AT_SPEED :: real where
  "LOCK_AT_SPEED = 10 * KPH_TO_MS"

text \<open>
  Modelled from the spec: \<^verbatim>\<open>clip\<close> of \<^verbatim>\<open>common.numpy_fast\<close> is not among the sources.
  The spec's "clamp to [lo, hi]".
\<close>

definition clip :: "real \<Rightarrow> real \<Rightarrow> real \<Rightarrow> real" where
  "clip x lo hi = max lo (min hi x)"

text \<open>
  Modelled from the spec: \<^verbatim>\<open>interp\<close> of \<^verbatim>\<open>common.numpy_fast\<close> is not among the sources.
  The spec's "three-point piecewise-linear interpolation over speed": linear between
  neighbouring breakpoints, constant outside them.
\<close>

fun interp :: "real \<Rightarrow> real \<times> real \<times> real \<Rightarrow> real \<times> real \<times> real \<Rightarrow> real" where
  "interp x (x0, x1, x2) (f0, f1, f2) =
     (if x \<le> x0 then f0
      else if x \<le> x1 then (x - x0) * (f1 - f0) / (x1 - x0) + f0
      else if x \<le> x2 then (x - x1) * (f2 - f1) / (x2 - x1) + f1
      else f2)"

text \<open>Python 3's \<^verbatim>\<open>round\<close> on a float: to the nearest integer, a tie to the even one.\<close>

definition py_round :: "real \<Rightarrow> int" where
  "py_round x =
     (let f = \<lfloor>x\<rfloor>; d = x - of_int f
      in if d < 1 / 2 then f else if 1 / 2 < d then f + 1 else if even f then f else f + 1)"

section \<open>The controller\<close>

definition CarController_init :: "CarParams \<Rightarrow> CarControllerParams \<Rightarrow> Params \<Rightarrow> CarController" where
  "CarController_init cp cparams p =
     \<lparr> CP = cp, params = cparams, frame = 0, last_steer = 0, last_angle = 0,
       alert_active = False, last_standstill = False, standstill_req = False,
       steer_rate_counter = 0, gas = 0, accel = 0,
       dp_toyota_auto_lock_gear_prev = park, dp_toyota_auto_lock_once = False,
       dp_toyota_auto_lock = p_dp_toyota_auto_lock p,
       dp_toyota_auto_unlock = p_dp_toyota_auto_unlock p,
       dp_toyota_sng = p_dp_toyota_sng p \<rparr>"

definition lat_active :: "CarControl \<Rightarrow> CarState \<Rightarrow> bool" where
  "lat_active CC CS \<longleftrightarrow> latActive CC \<and> \<bar>steeringTorque (out CS)\<bar> < MAX_USER_TORQUE"


subsection \<open>Door automation (lines 70 to 83)\<close>

definition door_logic :: "CarController \<Rightarrow> CarState \<Rightarrow> can_msg list \<Rightarrow> CarController \<times> can_msg list" where
  "door_logic self CS can_sends =
     (if \<not> doorOpen (out CS) then
        let gear = gearShifter (out CS) in
        if gear = park \<and> dp_toyota_auto_lock_gear_prev self \<noteq> gear then
          (self\<lparr>dp_toyota_auto_lock_once := False, dp_toyota_auto_lock_gear_prev := gear\<rparr>,
           if dp_toyota_auto_lock self then can_sends @ [make_can_msg 0x750 UNLOCK_CMD 0]
           else can_sends)
        else if gear = drive \<and> \<not> dp_toyota_auto_lock_once self \<and> LOCK_AT_SPEED \<le> vEgo (out CS) then
          (self\<lparr>dp_toyota_auto_lock_once := True, dp_toyota_auto_lock_gear_prev := gear\<rparr>,
           if dp_toyota_auto_unlock self then can_sends @ [make_can_msg 0x750 LOCK_CMD 0]
           else can_sends)
        else (self\<lparr>dp_toyota_auto_lock_gear_prev := gear\<rparr>, can_sends)
      else (self, can_sends))"

subsection \<open>Steer torque (lines 85 to 101)\<close>

text \<open>Returns the controller, \<^verbatim>\<open>apply_steer\<close> and \<^verbatim>\<open>apply_steer_req\<close>.\<close>

definition steer_torque ::
  "externals \<Rightarrow> CarController \<Rightarrow> CarControl \<Rightarrow> CarState \<Rightarrow> CarController \<times> int \<times> int" where
  "steer_torque ex self CC CS =
     (let new_steer = py_round (steer (actuators CC) * of_int (STEER_MAX (params self)));
          apply_steer = apply_meas_steer_torque_limits ex new_steer (last_steer self)
                          (steeringTorqueEps (out CS)) (params self);
          self = self\<lparr>steer_rate_counter :=
                   (if lat_active CC CS \<and> MAX_STEER_RATE \<le> \<bar>steeringRateDeg (out CS)\<bar>
                    then steer_rate_counter self + 1 else 0)\<rparr>;
          apply_steer_req = 1
      in if \<not> lat_active CC CS then (self, 0, 0)
         else if MAX_STEER_RATE_FRAMES < steer_rate_counter self then
           (self\<lparr>steer_rate_counter := 0\<rparr>, apply_steer, 0)
         else (self, apply_steer, apply_steer_req))"

subsection \<open>Steer angle (lines 103 to 118)\<close>

definition steer_angle ::
  "externals \<Rightarrow> CarController \<Rightarrow> CarControl \<Rightarrow> CarState \<Rightarrow> int \<Rightarrow> int \<Rightarrow> CarController \<times> int \<times> int" where
  "steer_angle ex self CC CS apply_steer apply_steer_req =
     (if steerControlType (CP self) = angle then
        (if frame self mod 2 = 0 then
           let apply_angle = Actuators.steeringAngleDeg (actuators CC) + steeringAngleOffsetDeg (out CS);
               apply_angle = apply_std_steer_angle_limits ex apply_angle (last_angle self)
                               (vEgo (out CS)) (params self);
               apply_angle = (if \<not> lat_active CC CS
                              then CarState_out.steeringAngleDeg (out CS) + steeringAngleOffsetDeg (out CS)
                              else apply_angle)
           in self\<lparr>last_angle := clip apply_angle (- MAX_STEER_ANGLE) MAX_STEER_ANGLE\<rparr>
         else self, 0, 0)
      else (self, apply_steer, apply_steer_req))"

subsection \<open>Steer and LTA messages (lines 125 to 131)\<close>

definition steer_msgs ::
  "externals \<Rightarrow> CarController \<Rightarrow> CarControl \<Rightarrow> CarState \<Rightarrow> int \<Rightarrow> int \<Rightarrow> can_msg list \<Rightarrow> can_msg list" where
  "steer_msgs ex self CC CS apply_steer apply_steer_req can_sends =
     (let can_sends = can_sends @ [create_steer_command apply_steer apply_steer_req] in
      if frame self mod 2 = 0 \<and> carFingerprint (CP self) \<in> TSS2_CAR ex then
        let lta_active = (lat_active CC CS \<and> steerControlType (CP self) = angle);
            full_torque_condition =
              (\<bar>steeringTorqueEps (out CS)\<bar> < of_int (STEER_MAX (params self)) \<and>
               \<bar>steeringTorque (out CS)\<bar> < MAX_DRIVER_TORQUE_ALLOWANCE);
            setme_x64 = (if lta_active \<and> full_torque_condition then 100 else 0)
        in can_sends @ [create_lta_steer_command (if lta_active then last_angle self else 0)
                          lta_active (frame self div 2) setme_x64]
      else can_sends)"

subsection \<open>Gas and brake (lines 133 to 154)\<close>

definition interceptor_gas_cmd :: "externals \<Rightarrow> CarController \<Rightarrow> CarControl \<Rightarrow> CarState \<Rightarrow> real" where
  "interceptor_gas_cmd ex self CC CS =
     (if enableGasInterceptor (CP self) \<and> longActive CC then
        let MAX_INTERCEPTOR_GAS = 0.5;
            bp = (0.0, MIN_ACC_SPEED ex, MIN_ACC_SPEED ex + PEDAL_TRANSITION ex);
            PEDAL_SCALE =
              (if carFingerprint (CP self) \<in> {RAV4, RAV4H, HIGHLANDER, HIGHLANDERH}
               then interp (vEgo (out CS)) bp (0.15, 0.3, 0.0)
               else if carFingerprint (CP self) \<in> {COROLLA}
               then interp (vEgo (out CS)) bp (0.3, 0.4, 0.0)
               else interp (vEgo (out CS)) bp (0.4, 0.5, 0.0));
            pedal_offset = interp (vEgo (out CS))
                             (0.0, 2.3, MIN_ACC_SPEED ex + PEDAL_TRANSITION ex) (- 0.4, 0.0, 0.2);
            pedal_command = PEDAL_SCALE * (Actuators.accel (actuators CC) + pedal_offset)
        in clip pedal_command 0 MAX_INTERCEPTOR_GAS
      else 0)"

definition pcm_accel_cmd :: "CarController \<Rightarrow> CarControl \<Rightarrow> real" where
  "pcm_accel_cmd self CC =
     clip (Actuators.accel (actuators CC)) (ACCEL_MIN (params self)) (ACCEL_MAX (params self))"

definition pcm_cancel_cmd :: "CarControl \<Rightarrow> CarState \<Rightarrow> bool" where
  "pcm_cancel_cmd CC CS =
     (if \<not> enabled CC \<and> pcm_acc_status CS \<noteq> 0 then True else cancel (cruiseControl CC))"

subsection \<open>Standstill request (lines 156 to 163)\<close>

definition standstill_logic :: "externals \<Rightarrow> CarController \<Rightarrow> CarState \<Rightarrow> CarController" where
  "standstill_logic ex self CS =
     (let self = (if \<not> dp_toyota_sng self \<and> standstill (out CS) \<and> \<not> last_standstill self \<and>
                     (carFingerprint (CP self) \<notin> NO_STOP_TIMER_CAR ex \<or> enableGasInterceptor (CP self))
                  then self\<lparr>standstill_req := True\<rparr> else self);
          self = (if pcm_acc_status CS \<noteq> 8 then self\<lparr>standstill_req := False\<rparr> else self)
      in self\<lparr>last_standstill := standstill (out CS)\<rparr>)"

subsection \<open>Longitudinal and pedal messages (lines 165 to 182)\<close>

definition longitudinal_msgs ::
  "externals \<Rightarrow> CarController \<Rightarrow> CarControl \<Rightarrow> CarState \<Rightarrow> can_msg list \<Rightarrow> CarController \<times> can_msg list" where
  "longitudinal_msgs ex self CC CS can_sends =
     (if (frame self mod 3 = 0 \<and> openpilotLongitudinalControl (CP self)) \<or> pcm_cancel_cmd CC CS then
        let lead = (leadVisible (hudControl CC) \<or> vEgo (out CS) < 12) in
        if pcm_cancel_cmd CC CS \<and> carFingerprint (CP self) \<in> UNSUPPORTED_DSU_CAR ex then
          (self, can_sends @ [create_acc_cancel_command])
        else if openpilotLongitudinalControl (CP self) then
          (self\<lparr>accel := pcm_accel_cmd self CC\<rparr>,
           can_sends @ [create_accel_command (pcm_accel_cmd self CC) (pcm_cancel_cmd CC CS)
                          (standstill_req self) lead (acc_type CS)])
        else
          (self, can_sends @ [create_accel_command 0 (pcm_cancel_cmd CC CS) False lead (acc_type CS)])
      else (self, can_sends))"

definition gas_interceptor_msg ::
  "CarController \<Rightarrow> real \<Rightarrow> can_msg list \<Rightarrow> CarController \<times> can_msg list" where
  "gas_interceptor_msg self gas_cmd can_sends =
     (if frame self mod 2 = 0 \<and> enableGasInterceptor (CP self) \<and> openpilotLongitudinalControl (CP self) then
        (self\<lparr>gas := gas_cmd\<rparr>,
         can_sends @ [create_gas_interceptor_command gas_cmd (frame self div 2)])
      else (self, can_sends))"

subsection \<open>HUD (lines 184 to 207)\<close>

definition hud_ui ::
  "CarController \<Rightarrow> CarControl \<Rightarrow> CarState \<Rightarrow> can_msg list \<Rightarrow> CarController \<times> can_msg list" where
  "hud_ui self CC CS can_sends =
     (if carFingerprint (CP self) \<noteq> PRIUS_V then
        let hud_control = hudControl CC;
            fcw_alert = (visualAlert hud_control = fcw);
            steer_alert = (visualAlert hud_control \<in> {steerRequired, ldw});
            edge = (((fcw_alert \<or> steer_alert) \<and> \<not> alert_active self) \<or>
                    (\<not> (fcw_alert \<or> steer_alert) \<and> alert_active self));
            send_ui = (if edge then True else if pcm_cancel_cmd CC CS then True else False);
            self = (if edge then self\<lparr>alert_active := \<not> alert_active self\<rparr> else self);
            can_sends =
              (if frame self mod 20 = 0 \<or> send_ui then
                 can_sends @ [create_ui_command steer_alert (pcm_cancel_cmd CC CS)
                                (leftLaneVisible hud_control) (rightLaneVisible hud_control)
                                (leftLaneDepart hud_control) (rightLaneDepart hud_control)
                                (enabled CC) (lkas_hud CS)]
               else can_sends);
            can_sends =
              (if (frame self mod 100 = 0 \<or> send_ui) \<and> enableDsu (CP self) then
                 can_sends @ [create_fcw_command fcw_alert]
               else can_sends)
        in (self, can_sends)
      else (self, can_sends))"

subsection \<open>Static messages (lines 209 to 212)\<close>

text \<open>\<^verbatim>\<open>self.frame % fr_step\<close> raises \<^verbatim>\<open>ZeroDivisionError\<close> on a zero divisor.\<close>

fun static_msgs ::
  "CarController \<Rightarrow> (int \<times> CAR set \<times> int \<times> int \<times> bytes) list \<Rightarrow> can_msg list \<Rightarrow> error + can_msg list" where
  "static_msgs self [] can_sends = Inr can_sends"
| "static_msgs self ((addr, cars, bus, fr_step, vl) # rest) can_sends =
     (if fr_step = 0 then Inl ZeroDivisionError
      else static_msgs self rest
             (if frame self mod fr_step = 0 \<and> enableDsu (CP self) \<and> carFingerprint (CP self) \<in> cars
              then can_sends @ [make_can_msg addr vl bus] else can_sends))"

subsection \<open>\<^verbatim>\<open>CarController.update\<close>\<close>

text \<open>
  The result is the controller after the call, and either the exception raised or the
  pair \<^verbatim>\<open>(new_actuators, can_sends)\<close>. The fields assigned before an exception keep
  their new values; \<^verbatim>\<open>apply_steer / STEER_MAX\<close> raises on \<^verbatim>\<open>STEER_MAX = 0\<close>.
\<close>

definition update ::
  "externals \<Rightarrow> CarController \<Rightarrow> CarControl \<Rightarrow> CarState
     \<Rightarrow> CarController \<times> (error + Actuators \<times> can_msg list)" where
  "update ex self CC CS =
     (let can_sends = [];
          (self, can_sends) = door_logic self CS can_sends;
          (self, apply_steer, apply_steer_req) = steer_torque ex self CC CS;
          (self, apply_steer, apply_steer_req) = steer_angle ex self CC CS apply_steer apply_steer_req;
          self = self\<lparr>last_steer := apply_steer\<rparr>;
          can_sends = steer_msgs ex self CC CS apply_steer apply_steer_req can_sends;
          gas_cmd = interceptor_gas_cmd ex self CC CS;
          self = standstill_logic ex self CS;
          (self, can_sends) = longitudinal_msgs ex self CC CS can_sends;
          (self, can_sends) = gas_interceptor_msg self gas_cmd can_sends;
          (self, can_sends) = hud_ui self CC CS can_sends
      in case static_msgs self (STATIC_DSU_MSGS ex) can_sends of
           Inl e \<Rightarrow> (self, Inl e)
         | Inr can_sends \<Rightarrow>
             if STEER_MAX (params self) = 0 then (self, Inl ZeroDivisionError)
             else
               (self\<lparr>frame := frame self + 1\<rparr>,
                Inr ((actuators CC)
                       \<lparr>steer := of_int apply_steer / of_int (STEER_MAX (params self)),
                        Actuators.steeringAngleDeg := last_angle self,
                        Actuators.accel := CarController.accel self,
                        Actuators.gas := CarController.gas self,
                        steerOutputCan := apply_steer\<rparr>,
                     can_sends)))"

text \<open>
  The controller after a sequence of \<^verbatim>\<open>update\<close> calls, one per control cycle. A call
  that raises leaves the controller with the fields it had assigned by then.
\<close>

fun run :: "externals \<Rightarrow> CarController \<Rightarrow> (CarControl \<times> CarState) list \<Rightarrow> CarController" where
  "run ex self [] = self"
| "run ex self ((CC, CS) # cycles) = run ex (fst (update ex self CC CS)) cycles"

section \<open>\<^verbatim>\<open>update\<close> up to the static messages\<close>

text \<open>
  The body of \<^verbatim>\<open>update\<close> down to line 207: the controller, \<^verbatim>\<open>apply_steer\<close> and
  \<^verbatim>\<open>can_sends\<close> as they stand when the loop over the static messages starts.
\<close>

definition before_static ::
  "externals \<Rightarrow> CarController \<Rightarrow> CarControl \<Rightarrow> CarState \<Rightarrow> CarController \<times> int \<times> can_msg list" where
  "before_static ex self CC CS =
     (let can_sends = [];
          (self, can_sends) = door_logic self CS can_sends;
          (self, apply_steer, apply_steer_req) = steer_torque ex self CC CS;
          (self, apply_steer, apply_steer_req) = steer_angle ex self CC CS apply_steer apply_steer_req;
          self = self\<lparr>last_steer := apply_steer\<rparr>;
          can_sends = steer_msgs ex self CC CS apply_steer apply_steer_req can_sends;
          gas_cmd = interceptor_gas_cmd ex self CC CS;
          self = standstill_logic ex self CS;
          (self, can_sends) = longitudinal_msgs ex self CC CS can_sends;
          (self, can_sends) = gas_interceptor_msg self gas_cmd can_sends;
          (self, can_sends) = hud_ui self CC CS can_sends
      in (self, apply_steer, can_sends))"


section \<open>The messages of a cycle, stage by stage\<close>

text \<open>
  What each stage appends to \<^verbatim>\<open>can_sends\<close>, as a function of the controller at the start
  of the cycle and of the inputs: the stage function, run on an empty list.
\<close>

definition door_part :: "CarController \<Rightarrow> CarState \<Rightarrow> can_msg list" where
  "door_part s CS = snd (door_logic s CS [])"

definition applied_steer :: "externals \<Rightarrow> CarController \<Rightarrow> CarControl \<Rightarrow> CarState \<Rightarrow> int \<times> int" where
  "applied_steer ex s CC CS =
     (let (s1, a, r) = steer_torque ex s CC CS in snd (steer_angle ex s1 CC CS a r))"

definition steer_part :: "externals \<Rightarrow> CarController \<Rightarrow> CarControl \<Rightarrow> CarState \<Rightarrow> can_msg list" where
  "steer_part ex s CC CS =
     (let (s1, a, r) = steer_torque ex s CC CS;
          (s2, a, r) = steer_angle ex s1 CC CS a r
      in steer_msgs ex s2 CC CS a r [])"

definition long_part :: "externals \<Rightarrow> CarController \<Rightarrow> CarControl \<Rightarrow> CarState \<Rightarrow> can_msg list" where
  "long_part ex s CC CS = snd (longitudinal_msgs ex (standstill_logic ex s CS) CC CS [])"

definition gas_part :: "externals \<Rightarrow> CarController \<Rightarrow> CarControl \<Rightarrow> CarState \<Rightarrow> can_msg list" where
  "gas_part ex s CC CS = snd (gas_interceptor_msg s (interceptor_gas_cmd ex s CC CS) [])"

definition hud_part :: "CarController \<Rightarrow> CarControl \<Rightarrow> CarState \<Rightarrow> can_msg list" where
  "hud_part s CC CS = snd (hud_ui s CC CS [])"

definition static_part :: "externals \<Rightarrow> CarController \<Rightarrow> can_msg list" where
  "static_part ex s =
     map (\<lambda>(addr, cars, bus, fr_step, vl). make_can_msg addr vl bus)
       (filter (\<lambda>(addr, cars, bus, fr_step, vl).
                  frame s mod fr_step = 0 \<and> enableDsu (CP s) \<and> carFingerprint (CP s) \<in> cars)
          (STATIC_DSU_MSGS ex))"

text \<open>No division by zero: \<^verbatim>\<open>STEER_MAX\<close> and every cadence divisor of the table are not 0.\<close>

definition no_zero_div :: "externals \<Rightarrow> CarController \<Rightarrow> bool" where
  "no_zero_div ex s \<longleftrightarrow>
     STEER_MAX (params s) \<noteq> 0 \<and>
     \<not> list_ex (\<lambda>(addr, cars, bus, fr_step, vl). fr_step = 0) (STATIC_DSU_MSGS ex)"

section \<open>Message kinds and conditions\<close>

definition is_door_cmd :: "can_msg \<Rightarrow> bool" where
  "is_door_cmd m \<longleftrightarrow> m = make_can_msg 0x750 UNLOCK_CMD 0 \<or> m = make_can_msg 0x750 LOCK_CMD 0"

fun is_steer_cmd :: "can_msg \<Rightarrow> bool" where
  "is_steer_cmd (create_steer_command a r) = True"
| "is_steer_cmd _ = False"

fun is_lta_cmd :: "can_msg \<Rightarrow> bool" where
  "is_lta_cmd (create_lta_steer_command a act n x) = True"
| "is_lta_cmd _ = False"

fun is_long_cmd :: "can_msg \<Rightarrow> bool" where
  "is_long_cmd (create_accel_command a c st l t) = True"
| "is_long_cmd create_acc_cancel_command = True"
| "is_long_cmd _ = False"

fun is_gas_cmd :: "can_msg \<Rightarrow> bool" where
  "is_gas_cmd (create_gas_interceptor_command g n) = True"
| "is_gas_cmd _ = False"

fun is_ui_cmd :: "can_msg \<Rightarrow> bool" where
  "is_ui_cmd (create_ui_command a b c d e f g h) = True"
| "is_ui_cmd _ = False"

fun is_fcw_cmd :: "can_msg \<Rightarrow> bool" where
  "is_fcw_cmd (create_fcw_command a) = True"
| "is_fcw_cmd _ = False"

text \<open>The door commands of a cycle: what stands ahead of the steer torque command.\<close>

definition door_cmds :: "can_msg list \<Rightarrow> can_msg list" where
  "door_cmds msgs = takeWhile (\<lambda>m. \<not> is_steer_cmd m) msgs"


text \<open>The alert condition of lines 189 to 194: \<^verbatim>\<open>fcw_alert or steer_alert\<close>.\<close>

definition alert_now :: "CarControl \<Rightarrow> bool" where
  "alert_now CC \<longleftrightarrow>
     visualAlert (hudControl CC) = fcw \<or> visualAlert (hudControl CC) \<in> {steerRequired, ldw}"

text \<open>
  The pedal scale and offset in the words of the specification: a three-point
  interpolation over speed, the scale with one set of values per vehicle class.
\<close>

definition pedal_scale :: "externals \<Rightarrow> CAR \<Rightarrow> real \<Rightarrow> real" where
  "pedal_scale ex car v =
     interp v (0, MIN_ACC_SPEED ex, MIN_ACC_SPEED ex + PEDAL_TRANSITION ex)
       (if car \<in> {RAV4, RAV4H, HIGHLANDER, HIGHLANDERH} then (0.15, 0.3, 0)
        else if car = COROLLA then (0.3, 0.4, 0)
        else (0.4, 0.5, 0))"

definition pedal_offset :: "externals \<Rightarrow> real \<Rightarrow> real" where
  "pedal_offset ex v = interp v (0, 2.3, MIN_ACC_SPEED ex + PEDAL_TRANSITION ex) (- 0.4, 0, 0.2)"

text \<open>The message list of a cycle that returns: the stages' parts in the order of the code.\<close>

definition cycle_sends :: "externals \<Rightarrow> CarController \<Rightarrow> CarControl \<Rightarrow> CarState \<Rightarrow> can_msg list" where
  "cycle_sends ex s CC CS =
     door_part s CS @ steer_part ex s CC CS @ long_part ex s CC CS @ gas_part ex s CC CS @
     hud_part s CC CS @ static_part ex s"

section \<open>A sample configuration\<close>

text \<open>
  Concrete inputs on which the theorems below are evaluated: a Corolla with pedal
  interceptor and DSU, limit functions that pass the request through, a driver with the
  hands off the wheel at 12 m/s in drive.
\<close>

definition sample_externals :: externals where
  "sample_externals =
     \<lparr> TSS2_CAR = {OTHER ''TOYOTA RAV4 2019''},
       NO_STOP_TIMER_CAR = {OTHER ''TOYOTA RAV4 2019''},
       UNSUPPORTED_DSU_CAR = {OTHER ''LEXUS IS 2018''},
       STATIC_DSU_MSGS = [(0x128, {RAV4H, COROLLA}, 1, 3, [0xf4, 0x01, 0x90, 0x83, 0x00, 0x37])],
       MIN_ACC_SPEED = 19 * 0.44704,
       PEDAL_TRANSITION = 10 * 0.44704,
       apply_meas_steer_torque_limits = (\<lambda>apply_torque apply_torque_last motor_torque LIMITS. apply_torque),
       apply_std_steer_angle_limits = (\<lambda>apply_angle apply_angle_last v_ego LIMITS. apply_angle) \<rparr>"

definition sample_CP :: CarParams where
  "sample_CP =
     \<lparr> steerControlType = torque, carFingerprint = COROLLA, enableGasInterceptor = True,
       openpilotLongitudinalControl = True, enableDsu = True \<rparr>"

definition sample_params :: CarControllerParams where
  "sample_params = \<lparr> STEER_MAX = 1500, ACCEL_MIN = - 3.5, ACCEL_MAX = 1.5 \<rparr>"

definition sample_Params :: Params where
  "sample_Params =
     \<lparr> p_dp_toyota_auto_lock = True, p_dp_toyota_auto_unlock = True, p_dp_toyota_sng = False \<rparr>"

definition sample_controller :: CarController where
  "sample_controller = CarController_init sample_CP sample_params sample_Params"

definition sample_CC :: CarControl where
  "sample_CC =
     \<lparr> enabled = True, latActive = True, longActive = True,
       actuators = \<lparr> steer = 0.1, steeringAngleDeg = 0, accel = 0.5, gas = 0, steerOutputCan = 0 \<rparr>,
       hudControl = \<lparr> visualAlert = none, leadVisible = False, leftLaneVisible = True,
                      rightLaneVisible = True, leftLaneDepart = False, rightLaneDepart = False \<rparr>,
       cruiseControl = \<lparr> cancel = False \<rparr> \<rparr>"

definition sample_CS :: CarState where
  "sample_CS =
     \<lparr> out = \<lparr> steeringTorque = 0, steeringTorqueEps = 0, steeringRateDeg = 0,
               steeringAngleDeg = 0, steeringAngleOffsetDeg = 0, vEgo = 12, standstill = False,
               gearShifter = drive, doorOpen = False \<rparr>,
       pcm_acc_status = 8, acc_type = 1, lkas_hud = [] \<rparr>"


text \<open>The vehicle held at standstill by the cruise system, and the cruise system disengaged.\<close>

definition sample_CS_stopped :: CarState where
  "sample_CS_stopped = sample_CS\<lparr>out := (out sample_CS)\<lparr>vEgo := 0, standstill := True\<rparr>\<rparr>"

definition sample_CS_released :: CarState where
  "sample_CS_released = sample_CS\<lparr>pcm_acc_status := 0\<rparr>"

text \<open>Longitudinal control inactive; the vehicle at rest with the brake released.\<close>

definition sample_CC_off :: CarControl where
  "sample_CC_off = sample_CC\<lparr>longActive := False\<rparr>"

definition sample_CS_slow :: CarState where
  "sample_CS_slow = sample_CS\<lparr>out := (out sample_CS)\<lparr>vEgo := 0\<rparr>\<rparr>"

text \<open>The driver pulling on the wheel with a torque of exactly 500, and of 600.\<close>

definition sample_CS_torque500 :: CarState where
  "sample_CS_torque500 = sample_CS\<lparr>out := (out sample_CS)\<lparr>steeringTorque := 500\<rparr>\<rparr>"

definition sample_CS_torque600 :: CarState where
  "sample_CS_torque600 = sample_CS\<lparr>out := (out sample_CS)\<lparr>steeringTorque := - 600\<rparr>\<rparr>"

text \<open>The controller at frames 300 and 301.\<close>

definition sample_controller_300 :: CarController where
  "sample_controller_300 = sample_controller\<lparr>frame := 300\<rparr>"

definition sample_controller_301 :: CarController where
  "sample_controller_301 = sample_controller\<lparr>frame := 301\<rparr>"

text \<open>The caller asking for a cancel.\<close>

definition sample_CC_cancel :: CarControl where
  "sample_CC_cancel = sample_CC\<lparr>cruiseControl := \<lparr>cancel = True\<rparr>\<rparr>"

text \<open>A Prius V at frame 1, and the caller raising a forward-collision alert.\<close>

definition sample_controller_prius_v :: CarController where
  "sample_controller_prius_v =
     sample_controller\<lparr>CP := sample_CP\<lparr>carFingerprint := PRIUS_V\<rparr>, frame := 1\<rparr>"

definition sample_controller_1 :: CarController where
  "sample_controller_1 = sample_controller\<lparr>frame := 1\<rparr>"

definition sample_CC_fcw :: CarControl where
  "sample_CC_fcw = sample_CC\<lparr>hudControl := (hudControl sample_CC)\<lparr>visualAlert := fcw\<rparr>\<rparr>"

text \<open>
  An angle-controlled TSS2 vehicle, lateral control not requested, the wheel at 10
  degrees; and the same with lateral control requested at 200 degrees.
\<close>

definition sample_controller_angle :: CarController where
  "sample_controller_angle =
     sample_controller\<lparr>CP := sample_CP\<lparr>steerControlType := angle,
                                         carFingerprint := OTHER ''TOYOTA RAV4 2019''\<rparr>\<rparr>"

definition sample_CC_lat_off :: CarControl where
  "sample_CC_lat_off = sample_CC\<lparr>latActive := False\<rparr>"

definition sample_CS_angle10 :: CarState where
  "sample_CS_angle10 = sample_CS\<lparr>out := (out sample_CS)\<lparr>CarState_out.steeringAngleDeg := 10\<rparr>\<rparr>"

definition sample_CC_angle200 :: CarControl where
  "sample_CC_angle200 = sample_CC\<lparr>actuators := (actuators sample_CC)\<lparr>Actuators.steeringAngleDeg := 200\<rparr>\<rparr>"

text \<open>Driving at 5 m/s, and the vehicle parked; a controller with only the lock flag set.\<close>

definition sample_CS_drive5 :: CarState where
  "sample_CS_drive5 = sample_CS\<lparr>out := (out sample_CS)\<lparr>vEgo := 5\<rparr>\<rparr>"

definition sample_CS_park :: CarState where
  "sample_CS_park = sample_CS\<lparr>out := (out sample_CS)\<lparr>vEgo := 0, gearShifter := park\<rparr>\<rparr>"

definition sample_Params_lock_only :: Params where
  "sample_Params_lock_only =
     \<lparr> p_dp_toyota_auto_lock = True, p_dp_toyota_auto_unlock = False, p_dp_toyota_sng = False \<rparr>"

definition sample_controller_lock_only :: CarController where
  "sample_controller_lock_only = CarController_init sample_CP sample_params sample_Params_lock_only"

text \<open>
  A vehicle of the unsupported-DSU class at frame 301, and the caller reporting the system
  disabled while the cruise system is engaged.
\<close>

definition sample_controller_lexus :: CarController where
  "sample_controller_lexus =
     sample_controller\<lparr>CP := sample_CP\<lparr>carFingerprint := OTHER ''LEXUS IS 2018''\<rparr>, frame := 301\<rparr>"

definition sample_CC_disabled :: CarControl where
  "sample_CC_disabled = sample_CC\<lparr>enabled := False\<rparr>"

section \<open>Stage lemmas\<close>

subsection \<open>What each stage leaves alone\<close>

lemma door_logic_keeps [simp]:
  "CP (fst (door_logic s CS cs)) = CP s"
  "params (fst (door_logic s CS cs)) = params s"
  "frame (fst (door_logic s CS cs)) = frame s"
  "last_steer (fst (door_logic s CS cs)) = last_steer s"
  "last_angle (fst (door_logic s CS cs)) = last_angle s"
  "alert_active (fst (door_logic s CS cs)) = alert_active s"
  "last_standstill (fst (door_logic s CS cs)) = last_standstill s"
  "standstill_req (fst (door_logic s CS cs)) = standstill_req s"
  "steer_rate_counter (fst (door_logic s CS cs)) = steer_rate_counter s"
  "CarController.gas (fst (door_logic s CS cs)) = CarController.gas s"
  "CarController.accel (fst (door_logic s CS cs)) = CarController.accel s"
  "dp_toyota_auto_lock (fst (door_logic s CS cs)) = dp_toyota_auto_lock s"
  "dp_toyota_auto_unlock (fst (door_logic s CS cs)) = dp_toyota_auto_unlock s"
  "dp_toyota_sng (fst (door_logic s CS cs)) = dp_toyota_sng s"
  by (simp_all add: door_logic_def Let_def)

lemma steer_torque_keeps [simp]:
  "CP (fst (steer_torque ex s CC CS)) = CP s"
  "params (fst (steer_torque ex s CC CS)) = params s"
  "frame (fst (steer_torque ex s CC CS)) = frame s"
  "last_steer (fst (steer_torque ex s CC CS)) = last_steer s"
  "last_angle (fst (steer_torque ex s CC CS)) = last_angle s"
  "alert_active (fst (steer_torque ex s CC CS)) = alert_active s"
  "last_standstill (fst (steer_torque ex s CC CS)) = last_standstill s"
  "standstill_req (fst (steer_torque ex s CC CS)) = standstill_req s"
  "CarController.gas (fst (steer_torque ex s CC CS)) = CarController.gas s"
  "CarController.accel (fst (steer_torque ex s CC CS)) = CarController.accel s"
  "dp_toyota_auto_lock_gear_prev (fst (steer_torque ex s CC CS)) = dp_toyota_auto_lock_gear_prev s"
  "dp_toyota_auto_lock_once (fst (steer_torque ex s CC CS)) = dp_toyota_auto_lock_once s"
  "dp_toyota_auto_lock (fst (steer_torque ex s CC CS)) = dp_toyota_auto_lock s"
  "dp_toyota_auto_unlock (fst (steer_torque ex s CC CS)) = dp_toyota_auto_unlock s"
  "dp_toyota_sng (fst (steer_torque ex s CC CS)) = dp_toyota_sng s"
  by (simp_all add: steer_torque_def Let_def)

lemma steer_angle_keeps [simp]:
  "CP (fst (steer_angle ex s CC CS a r)) = CP s"
  "params (fst (steer_angle ex s CC CS a r)) = params s"
  "frame (fst (steer_angle ex s CC CS a r)) = frame s"
  "last_steer (fst (steer_angle ex s CC CS a r)) = last_steer s"
  "alert_active (fst (steer_angle ex s CC CS a r)) = alert_active s"
  "last_standstill (fst (steer_angle ex s CC CS a r)) = last_standstill s"
  "standstill_req (fst (steer_angle ex s CC CS a r)) = standstill_req s"
  "steer_rate_counter (fst (steer_angle ex s CC CS a r)) = steer_rate_counter s"
  "CarController.gas (fst (steer_angle ex s CC CS a r)) = CarController.gas s"
  "CarController.accel (fst (steer_angle ex s CC CS a r)) = CarController.accel s"
  "dp_toyota_auto_lock_gear_prev (fst (steer_angle ex s CC CS a r)) = dp_toyota_auto_lock_gear_prev s"
  "dp_toyota_auto_lock_once (fst (steer_angle ex s CC CS a r)) = dp_toyota_auto_lock_once s"
  "dp_toyota_auto_lock (fst (steer_angle ex s CC CS a r)) = dp_toyota_auto_lock s"
  "dp_toyota_auto_unlock (fst (steer_angle ex s CC CS a r)) = dp_toyota_auto_unlock s"
  "dp_toyota_sng (fst (steer_angle ex s CC CS a r)) = dp_toyota_sng s"
  by (simp_all add: steer_angle_def Let_def)

lemma standstill_logic_keeps [simp]:
  "CP (standstill_logic ex s CS) = CP s"
  "params (standstill_logic ex s CS) = params s"
  "frame (standstill_logic ex s CS) = frame s"
  "last_steer (standstill_logic ex s CS) = last_steer s"
  "last_angle (standstill_logic ex s CS) = last_angle s"
  "alert_active (standstill_logic ex s CS) = alert_active s"
  "steer_rate_counter (standstill_logic ex s CS) = steer_rate_counter s"
  "CarController.gas (standstill_logic ex s CS) = CarController.gas s"
  "CarController.accel (standstill_logic ex s CS) = CarController.accel s"
  "dp_toyota_auto_lock_gear_prev (standstill_logic ex s CS) = dp_toyota_auto_lock_gear_prev s"
  "dp_toyota_auto_lock_once (standstill_logic ex s CS) = dp_toyota_auto_lock_once s"
  "dp_toyota_auto_lock (standstill_logic ex s CS) = dp_toyota_auto_lock s"
  "dp_toyota_auto_unlock (standstill_logic ex s CS) = dp_toyota_auto_unlock s"
  "dp_toyota_sng (standstill_logic ex s CS) = dp_toyota_sng s"
  by (simp_all add: standstill_logic_def Let_def)

lemma longitudinal_msgs_keeps [simp]:
  "CP (fst (longitudinal_msgs ex s CC CS cs)) = CP s"
  "params (fst (longitudinal_msgs ex s CC CS cs)) = params s"
  "frame (fst (longitudinal_msgs ex s CC CS cs)) = frame s"
  "last_steer (fst (longitudinal_msgs ex s CC CS cs)) = last_steer s"
  "last_angle (fst (longitudinal_msgs ex s CC CS cs)) = last_angle s"
  "alert_active (fst (longitudinal_msgs ex s CC CS cs)) = alert_active s"
  "last_standstill (fst (longitudinal_msgs ex s CC CS cs)) = last_standstill s"
  "standstill_req (fst (longitudinal_msgs ex s CC CS cs)) = standstill_req s"
  "steer_rate_counter (fst (longitudinal_msgs ex s CC CS cs)) = steer_rate_counter s"
  "CarController.gas (fst (longitudinal_msgs ex s CC CS cs)) = CarController.gas s"
  "dp_toyota_auto_lock_gear_prev (fst (longitudinal_msgs ex s CC CS cs)) = dp_toyota_auto_lock_gear_prev s"
  "dp_toyota_auto_lock_once (fst (longitudinal_msgs ex s CC CS cs)) = dp_toyota_auto_lock_once s"
  "dp_toyota_auto_lock (fst (longitudinal_msgs ex s CC CS cs)) = dp_toyota_auto_lock s"
  "dp_toyota_auto_unlock (fst (longitudinal_msgs ex s CC CS cs)) = dp_toyota_auto_unlock s"
  "dp_toyota_sng (fst (longitudinal_msgs ex s CC CS cs)) = dp_toyota_sng s"
  by (simp_all add: longitudinal_msgs_def Let_def)

lemma gas_interceptor_msg_keeps [simp]:
  "CP (fst (gas_interceptor_msg s g cs)) = CP s"
  "params (fst (gas_interceptor_msg s g cs)) = params s"
  "frame (fst (gas_interceptor_msg s g cs)) = frame s"
  "last_steer (fst (gas_interceptor_msg s g cs)) = last_steer s"
  "last_angle (fst (gas_interceptor_msg s g cs)) = last_angle s"
  "alert_active (fst (gas_interceptor_msg s g cs)) = alert_active s"
  "last_standstill (fst (gas_interceptor_msg s g cs)) = last_standstill s"
  "standstill_req (fst (gas_interceptor_msg s g cs)) = standstill_req s"
  "steer_rate_counter (fst (gas_interceptor_msg s g cs)) = steer_rate_counter s"
  "CarController.accel (fst (gas_interceptor_msg s g cs)) = CarController.accel s"
  "dp_toyota_auto_lock_gear_prev (fst (gas_interceptor_msg s g cs)) = dp_toyota_auto_lock_gear_prev s"
  "dp_toyota_auto_lock_once (fst (gas_interceptor_msg s g cs)) = dp_toyota_auto_lock_once s"
  "dp_toyota_auto_lock (fst (gas_interceptor_msg s g cs)) = dp_toyota_auto_lock s"
  "dp_toyota_auto_unlock (fst (gas_interceptor_msg s g cs)) = dp_toyota_auto_unlock s"
  "dp_toyota_sng (fst (gas_interceptor_msg s g cs)) = dp_toyota_sng s"
  by (simp_all add: gas_interceptor_msg_def)

lemma hud_ui_keeps [simp]:
  "CP (fst (hud_ui s CC CS cs)) = CP s"
  "params (fst (hud_ui s CC CS cs)) = params s"
  "frame (fst (hud_ui s CC CS cs)) = frame s"
  "last_steer (fst (hud_ui s CC CS cs)) = last_steer s"
  "last_angle (fst (hud_ui s CC CS cs)) = last_angle s"
  "last_standstill (fst (hud_ui s CC CS cs)) = last_standstill s"
  "standstill_req (fst (hud_ui s CC CS cs)) = standstill_req s"
  "steer_rate_counter (fst (hud_ui s CC CS cs)) = steer_rate_counter s"
  "CarController.gas (fst (hud_ui s CC CS cs)) = CarController.gas s"
  "CarController.accel (fst (hud_ui s CC CS cs)) = CarController.accel s"
  "dp_toyota_auto_lock_gear_prev (fst (hud_ui s CC CS cs)) = dp_toyota_auto_lock_gear_prev s"
  "dp_toyota_auto_lock_once (fst (hud_ui s CC CS cs)) = dp_toyota_auto_lock_once s"
  "dp_toyota_auto_lock (fst (hud_ui s CC CS cs)) = dp_toyota_auto_lock s"
  "dp_toyota_auto_unlock (fst (hud_ui s CC CS cs)) = dp_toyota_auto_unlock s"
  "dp_toyota_sng (fst (hud_ui s CC CS cs)) = dp_toyota_sng s"
  by (simp_all add: hud_ui_def Let_def)

subsection \<open>What each stage assigns\<close>

lemma door_logic_once:
  "dp_toyota_auto_lock_once (fst (door_logic s CS cs)) =
     (if doorOpen (out CS) then dp_toyota_auto_lock_once s
      else if gearShifter (out CS) = park \<and> dp_toyota_auto_lock_gear_prev s \<noteq> park then False
      else if gearShifter (out CS) = drive \<and> \<not> dp_toyota_auto_lock_once s \<and>
              LOCK_AT_SPEED \<le> vEgo (out CS) then True
      else dp_toyota_auto_lock_once s)"
  by (auto simp add: door_logic_def Let_def)

lemma door_logic_prev:
  "dp_toyota_auto_lock_gear_prev (fst (door_logic s CS cs)) =
     (if doorOpen (out CS) then dp_toyota_auto_lock_gear_prev s else gearShifter (out CS))"
  by (simp add: door_logic_def Let_def)


lemma steer_angle_last_angle:
  "last_angle (fst (steer_angle ex s CC CS a r)) =
     (if steerControlType (CP s) = angle \<and> frame s mod 2 = 0 then
        clip (if lat_active CC CS
              then apply_std_steer_angle_limits ex
                     (Actuators.steeringAngleDeg (actuators CC) + steeringAngleOffsetDeg (out CS))
                     (last_angle s) (vEgo (out CS)) (params s)
              else CarState_out.steeringAngleDeg (out CS) + steeringAngleOffsetDeg (out CS))
          (- MAX_STEER_ANGLE) MAX_STEER_ANGLE
      else last_angle s)"
  by (simp add: steer_angle_def Let_def)

lemma standstill_logic_req:
  "standstill_req (standstill_logic ex s CS) =
     (if pcm_acc_status CS \<noteq> 8 then False
      else if \<not> dp_toyota_sng s \<and> standstill (out CS) \<and> \<not> last_standstill s \<and>
              (carFingerprint (CP s) \<notin> NO_STOP_TIMER_CAR ex \<or> enableGasInterceptor (CP s)) then True
      else standstill_req s)"
  by (auto simp add: standstill_logic_def Let_def)

lemma standstill_logic_last:
  "last_standstill (standstill_logic ex s CS) = standstill (out CS)"
  by (simp add: standstill_logic_def Let_def)

lemma hud_ui_alert_active:
  "alert_active (fst (hud_ui s CC CS cs)) =
     (if carFingerprint (CP s) \<noteq> PRIUS_V
      then visualAlert (hudControl CC) \<in> {fcw, steerRequired, ldw}
      else alert_active s)"
  by (auto simp add: hud_ui_def Let_def)

subsection \<open>\<^verbatim>\<open>update\<close> up to the static messages\<close>

lemma update_before_static:
  "update ex self CC CS =
     (let (self, apply_steer, can_sends) = before_static ex self CC CS in
        case static_msgs self (STATIC_DSU_MSGS ex) can_sends of
          Inl e \<Rightarrow> (self, Inl e)
        | Inr can_sends \<Rightarrow>
            if STEER_MAX (params self) = 0 then (self, Inl ZeroDivisionError)
            else
              (self\<lparr>frame := frame self + 1\<rparr>,
               Inr ((actuators CC)
                      \<lparr>steer := of_int apply_steer / of_int (STEER_MAX (params self)),
                       Actuators.steeringAngleDeg := last_angle self,
                       Actuators.accel := CarController.accel self,
                       Actuators.gas := CarController.gas self,
                       steerOutputCan := apply_steer\<rparr>,
                    can_sends)))"
  by (simp only: update_def before_static_def Let_def split_beta fst_conv snd_conv)

lemma before_static_keeps [simp]:
  "CP (fst (before_static ex s CC CS)) = CP s"
  "params (fst (before_static ex s CC CS)) = params s"
  "frame (fst (before_static ex s CC CS)) = frame s"
  "dp_toyota_auto_lock (fst (before_static ex s CC CS)) = dp_toyota_auto_lock s"
  "dp_toyota_auto_unlock (fst (before_static ex s CC CS)) = dp_toyota_auto_unlock s"
  "dp_toyota_sng (fst (before_static ex s CC CS)) = dp_toyota_sng s"
  by (simp_all add: before_static_def Let_def split_beta)


lemma before_static_last_angle:
  "last_angle (fst (before_static ex s CC CS)) =
     (if steerControlType (CP s) = angle \<and> frame s mod 2 = 0 then
        clip (if lat_active CC CS
              then apply_std_steer_angle_limits ex
                     (Actuators.steeringAngleDeg (actuators CC) + steeringAngleOffsetDeg (out CS))
                     (last_angle s) (vEgo (out CS)) (params s)
              else CarState_out.steeringAngleDeg (out CS) + steeringAngleOffsetDeg (out CS))
          (- MAX_STEER_ANGLE) MAX_STEER_ANGLE
      else last_angle s)"
  by (simp add: before_static_def Let_def split_beta steer_angle_last_angle)

lemma before_static_standstill_req:
  "standstill_req (fst (before_static ex s CC CS)) =
     (if pcm_acc_status CS \<noteq> 8 then False
      else if \<not> dp_toyota_sng s \<and> standstill (out CS) \<and> \<not> last_standstill s \<and>
              (carFingerprint (CP s) \<notin> NO_STOP_TIMER_CAR ex \<or> enableGasInterceptor (CP s)) then True
      else standstill_req s)"
  by (auto simp add: before_static_def Let_def split_beta standstill_logic_req)

lemma before_static_alert_active:
  "alert_active (fst (before_static ex s CC CS)) =
     (if carFingerprint (CP s) \<noteq> PRIUS_V
      then visualAlert (hudControl CC) \<in> {fcw, steerRequired, ldw}
      else alert_active s)"
  by (simp add: before_static_def Let_def split_beta hud_ui_alert_active)

lemma before_static_once:
  "dp_toyota_auto_lock_once (fst (before_static ex s CC CS)) =
     dp_toyota_auto_lock_once (fst (door_logic s CS []))"
  by (simp add: before_static_def Let_def split_beta)

lemma before_static_prev:
  "dp_toyota_auto_lock_gear_prev (fst (before_static ex s CC CS)) =
     dp_toyota_auto_lock_gear_prev (fst (door_logic s CS []))"
  by (simp add: before_static_def Let_def split_beta)

subsection \<open>The controller after \<^verbatim>\<open>update\<close>\<close>

lemma update_field:
  assumes "\<And>t n. f (t\<lparr>frame := n\<rparr>) = f t"
  shows "f (fst (update ex s CC CS)) = f (fst (before_static ex s CC CS))"
  by (simp add: update_before_static Let_def split_beta assms split: sum.split)

lemma update_keeps [simp]:
  "CP (fst (update ex s CC CS)) = CP s"
  "params (fst (update ex s CC CS)) = params s"
  "dp_toyota_auto_lock (fst (update ex s CC CS)) = dp_toyota_auto_lock s"
  "dp_toyota_auto_unlock (fst (update ex s CC CS)) = dp_toyota_auto_unlock s"
  "dp_toyota_sng (fst (update ex s CC CS)) = dp_toyota_sng s"
  by (simp_all add: update_field)


lemma update_last_angle:
  "last_angle (fst (update ex s CC CS)) = last_angle (fst (before_static ex s CC CS))"
  by (simp add: update_field)

lemma update_standstill_req:
  "standstill_req (fst (update ex s CC CS)) =
     (if pcm_acc_status CS \<noteq> 8 then False
      else if \<not> dp_toyota_sng s \<and> standstill (out CS) \<and> \<not> last_standstill s \<and>
              (carFingerprint (CP s) \<notin> NO_STOP_TIMER_CAR ex \<or> enableGasInterceptor (CP s)) then True
      else standstill_req s)"
  by (simp only: update_field [of standstill_req, simplified] before_static_standstill_req)

lemma update_alert_active:
  "alert_active (fst (update ex s CC CS)) =
     (if carFingerprint (CP s) \<noteq> PRIUS_V
      then visualAlert (hudControl CC) \<in> {fcw, steerRequired, ldw}
      else alert_active s)"
  by (simp only: update_field [of alert_active, simplified] before_static_alert_active)

lemma update_once:
  "dp_toyota_auto_lock_once (fst (update ex s CC CS)) =
     dp_toyota_auto_lock_once (fst (door_logic s CS []))"
  by (simp add: update_field before_static_once)

lemma update_prev:
  "dp_toyota_auto_lock_gear_prev (fst (update ex s CC CS)) =
     dp_toyota_auto_lock_gear_prev (fst (door_logic s CS []))"
  by (simp add: update_field before_static_prev)

subsection \<open>Each stage appends, and reads few fields\<close>

lemma door_logic_snd: "snd (door_logic s CS cs) = cs @ door_part s CS"
  by (auto simp add: door_part_def door_logic_def Let_def)

lemma steer_torque_snd:
  assumes "params t = params s" "last_steer t = last_steer s"
    "steer_rate_counter t = steer_rate_counter s"
  shows "snd (steer_torque ex t CC CS) = snd (steer_torque ex s CC CS)"
  using assms by (simp add: steer_torque_def Let_def)

lemma steer_angle_snd:
  "snd (steer_angle ex t CC CS a r) = (if steerControlType (CP t) = angle then (0, 0) else (a, r))"
  by (simp add: steer_angle_def Let_def)

lemma steer_msgs_snd:
  assumes "frame t = frame s" "CP t = CP s" "params t = params s" "last_angle t = last_angle s"
  shows "steer_msgs ex t CC CS a r cs = cs @ steer_msgs ex s CC CS a r []"
  using assms by (simp add: steer_msgs_def Let_def)

lemma interceptor_gas_cmd_cong:
  assumes "CP t = CP s"
  shows "interceptor_gas_cmd ex t CC CS = interceptor_gas_cmd ex s CC CS"
  by (simp only: interceptor_gas_cmd_def assms)

lemma longitudinal_msgs_snd:
  assumes "frame t = frame s" "CP t = CP s" "params t = params s"
    "standstill_req t = standstill_req s"
  shows "snd (longitudinal_msgs ex t CC CS cs) = cs @ snd (longitudinal_msgs ex s CC CS [])"
  using assms by (simp add: longitudinal_msgs_def pcm_accel_cmd_def Let_def)

lemma gas_interceptor_msg_snd:
  assumes "frame t = frame s" "CP t = CP s"
  shows "snd (gas_interceptor_msg t g cs) = cs @ snd (gas_interceptor_msg s g [])"
  using assms by (simp add: gas_interceptor_msg_def)

lemma hud_ui_snd:
  assumes "frame t = frame s" "CP t = CP s" "alert_active t = alert_active s"
  shows "snd (hud_ui t CC CS cs) = cs @ snd (hud_ui s CC CS [])"
  using assms by (auto simp add: hud_ui_def Let_def)

lemma static_msgs_eq:
  "static_msgs t tbl cs =
     (if list_ex (\<lambda>(addr, cars, bus, fr_step, vl). fr_step = 0) tbl then Inl ZeroDivisionError
      else Inr (cs @ map (\<lambda>(addr, cars, bus, fr_step, vl). make_can_msg addr vl bus)
                       (filter (\<lambda>(addr, cars, bus, fr_step, vl).
                                  frame t mod fr_step = 0 \<and> enableDsu (CP t) \<and>
                                  carFingerprint (CP t) \<in> cars) tbl)))"
  by (induction t tbl cs rule: static_msgs.induct) auto

subsection \<open>The message list of \<^verbatim>\<open>update\<close>\<close>

lemma before_static_apply_steer:
  "snd (steer_angle ex (fst (steer_torque ex (fst (door_logic s CS [])) CC CS)) CC CS
          (fst (snd (steer_torque ex (fst (door_logic s CS [])) CC CS)))
          (snd (snd (steer_torque ex (fst (door_logic s CS [])) CC CS)))) =
   applied_steer ex s CC CS"
proof -
  have "snd (steer_torque ex (fst (door_logic s CS [])) CC CS) = snd (steer_torque ex s CC CS)"
    by (rule steer_torque_snd) simp_all
  then show ?thesis
    by (simp add: applied_steer_def split_beta steer_angle_snd)
qed

lemma before_static_fst_snd:
  "fst (snd (before_static ex s CC CS)) = fst (applied_steer ex s CC CS)"
  by (simp add: before_static_def Let_def split_beta before_static_apply_steer)

lemma before_static_sends:
  "snd (snd (before_static ex s CC CS)) =
     door_part s CS @ steer_part ex s CC CS @ long_part ex s CC CS @ gas_part ex s CC CS @
     hud_part s CC CS"
proof -
  define s0 where "s0 = fst (door_logic s CS [])"
  define r1 where "r1 = steer_torque ex s0 CC CS"
  define r2 where "r2 = steer_angle ex (fst r1) CC CS (fst (snd r1)) (snd (snd r1))"
  define s2 where "s2 = (fst r2)\<lparr>last_steer := fst (snd r2)\<rparr>"
  define s3 where "s3 = standstill_logic ex s2 CS"
  define q1 where "q1 = steer_torque ex s CC CS"
  define q2 where "q2 = steer_angle ex (fst q1) CC CS (fst (snd q1)) (snd (snd q1))"
  have r1q1: "snd r1 = snd q1"
    unfolding r1_def q1_def s0_def by (rule steer_torque_snd) simp_all
  have "CP (fst r1) = CP (fst q1)"
    by (simp add: r1_def q1_def s0_def)
  then have r2q2: "snd r2 = snd q2"
    by (simp add: r2_def q2_def steer_angle_snd r1q1)
  have steer: "steer_msgs ex s2 CC CS (fst (snd r2)) (snd (snd r2)) cs = cs @ steer_part ex s CC CS"
    for cs
    unfolding steer_part_def Let_def split_beta q1_def [symmetric] q2_def [symmetric] r2q2
    by (rule steer_msgs_snd)
       (simp_all add: s2_def r2_def q2_def r1_def q1_def s0_def steer_angle_last_angle)
  have long: "snd (longitudinal_msgs ex s3 CC CS cs) = cs @ long_part ex s CC CS" for cs
    unfolding long_part_def
    by (rule longitudinal_msgs_snd)
       (auto simp add: s3_def s2_def r2_def r1_def s0_def standstill_logic_req)
  have gas: "snd (gas_interceptor_msg (fst (longitudinal_msgs ex s3 CC CS cs1))
                   (interceptor_gas_cmd ex s2 CC CS) cs) = cs @ gas_part ex s CC CS"
    for cs cs1
  proof -
    have "interceptor_gas_cmd ex s2 CC CS = interceptor_gas_cmd ex s CC CS"
      by (rule interceptor_gas_cmd_cong) (simp add: s2_def r2_def r1_def s0_def)
    then show ?thesis
      unfolding gas_part_def
      by (simp only:, intro gas_interceptor_msg_snd)
         (simp_all add: s3_def s2_def r2_def r1_def s0_def)
  qed
  have hud: "snd (hud_ui (fst (gas_interceptor_msg (fst (longitudinal_msgs ex s3 CC CS cs1)) g cs2))
                   CC CS cs) = cs @ hud_part s CC CS"
    for cs cs1 cs2 g
    unfolding hud_part_def
    by (rule hud_ui_snd) (simp_all add: s3_def s2_def r2_def r1_def s0_def)
  note parts = hud [unfolded s3_def s2_def r2_def r1_def s0_def]
    gas [unfolded s3_def s2_def r2_def r1_def s0_def]
    long [unfolded s3_def s2_def r2_def r1_def s0_def]
    steer [unfolded s2_def r2_def r1_def s0_def]
  show ?thesis
    by (simp add: before_static_def Let_def split_beta parts door_logic_snd)
qed

lemma update_eq:
  "update ex s CC CS =
     (if no_zero_div ex s then
        ((fst (before_static ex s CC CS))\<lparr>frame := frame s + 1\<rparr>,
         Inr ((actuators CC)
                \<lparr>steer := of_int (fst (applied_steer ex s CC CS)) / of_int (STEER_MAX (params s)),
                 Actuators.steeringAngleDeg := last_angle (fst (before_static ex s CC CS)),
                 Actuators.accel := CarController.accel (fst (before_static ex s CC CS)),
                 Actuators.gas := CarController.gas (fst (before_static ex s CC CS)),
                 steerOutputCan := fst (applied_steer ex s CC CS)\<rparr>,
              door_part s CS @ steer_part ex s CC CS @ long_part ex s CC CS @
              gas_part ex s CC CS @ hud_part s CC CS @ static_part ex s))
      else (fst (before_static ex s CC CS), Inl ZeroDivisionError))"
  by (simp add: update_before_static Let_def split_beta static_msgs_eq no_zero_div_def
        before_static_fst_snd before_static_sends static_part_def)

lemma update_returns:
  assumes "no_zero_div ex s"
  shows "update ex s CC CS =
     ((fst (before_static ex s CC CS))\<lparr>frame := frame s + 1\<rparr>,
      Inr ((actuators CC)
             \<lparr>steer := of_int (fst (applied_steer ex s CC CS)) / of_int (STEER_MAX (params s)),
              Actuators.steeringAngleDeg := last_angle (fst (before_static ex s CC CS)),
              Actuators.accel := CarController.accel (fst (before_static ex s CC CS)),
              Actuators.gas := CarController.gas (fst (before_static ex s CC CS)),
              steerOutputCan := fst (applied_steer ex s CC CS)\<rparr>,
           door_part s CS @ steer_part ex s CC CS @ long_part ex s CC CS @
           gas_part ex s CC CS @ hud_part s CC CS @ static_part ex s))"
  using assms by (simp add: update_eq)

lemma update_Inr:
  assumes "update ex s CC CS = (s', Inr (acts, msgs))"
  shows "no_zero_div ex s"
    and "s' = fst (update ex s CC CS)"
    and "msgs = door_part s CS @ steer_part ex s CC CS @ long_part ex s CC CS @
                gas_part ex s CC CS @ hud_part s CC CS @ static_part ex s"
    and "steerOutputCan acts = fst (applied_steer ex s CC CS)"
    and "steer acts = of_int (fst (applied_steer ex s CC CS)) / of_int (STEER_MAX (params s))"
    and "Actuators.steeringAngleDeg acts = last_angle s'"
  using assms by (auto simp add: update_eq split: if_splits)


lemma run_keeps [simp]:
  "CP (run ex s cycles) = CP s"
  "params (run ex s cycles) = params s"
  "dp_toyota_sng (run ex s cycles) = dp_toyota_sng s"
  by (induction cycles arbitrary: s) auto

lemma no_zero_div_run [simp]: "no_zero_div ex (run ex s cycles) = no_zero_div ex s"
  by (simp add: no_zero_div_def)

lemma no_zero_div_update [simp]: "no_zero_div ex (fst (update ex s CC CS)) = no_zero_div ex s"
  by (simp add: no_zero_div_def)

subsection \<open>The parts in closed form\<close>

lemma door_part_eq:
  "door_part s CS =
     (if doorOpen (out CS) then []
      else if gearShifter (out CS) = park \<and> dp_toyota_auto_lock_gear_prev s \<noteq> park then
        (if dp_toyota_auto_lock s then [make_can_msg 0x750 UNLOCK_CMD 0] else [])
      else if gearShifter (out CS) = drive \<and> \<not> dp_toyota_auto_lock_once s \<and>
              LOCK_AT_SPEED \<le> vEgo (out CS) then
        (if dp_toyota_auto_unlock s then [make_can_msg 0x750 LOCK_CMD 0] else [])
      else [])"
  by (auto simp add: door_part_def door_logic_def Let_def)

lemma applied_steer_eq:
  "applied_steer ex s CC CS =
     (if steerControlType (CP s) = angle then (0, 0)
      else if \<not> lat_active CC CS then (0, 0)
      else (apply_meas_steer_torque_limits ex
              (py_round (steer (actuators CC) * of_int (STEER_MAX (params s))))
              (last_steer s) (steeringTorqueEps (out CS)) (params s),
            if MAX_STEER_RATE \<le> \<bar>steeringRateDeg (out CS)\<bar> \<and>
               MAX_STEER_RATE_FRAMES < steer_rate_counter s + 1 then 0 else 1))"
  by (simp add: applied_steer_def split_beta steer_angle_snd steer_torque_def Let_def
        MAX_STEER_RATE_FRAMES_def)

lemma steer_part_eq:
  "steer_part ex s CC CS =
     create_steer_command (fst (applied_steer ex s CC CS)) (snd (applied_steer ex s CC CS)) #
     (if frame s mod 2 = 0 \<and> carFingerprint (CP s) \<in> TSS2_CAR ex then
        [create_lta_steer_command
           (if lat_active CC CS \<and> steerControlType (CP s) = angle
            then last_angle (fst (before_static ex s CC CS)) else 0)
           (lat_active CC CS \<and> steerControlType (CP s) = angle)
           (frame s div 2)
           (if (lat_active CC CS \<and> steerControlType (CP s) = angle) \<and>
               \<bar>steeringTorqueEps (out CS)\<bar> < of_int (STEER_MAX (params s)) \<and>
               \<bar>steeringTorque (out CS)\<bar> < MAX_DRIVER_TORQUE_ALLOWANCE then 100 else 0)]
      else [])"
  by (simp add: steer_part_def applied_steer_def split_beta steer_msgs_def Let_def
        before_static_last_angle steer_angle_last_angle)

lemma long_part_eq:
  "long_part ex s CC CS =
     (if (frame s mod 3 = 0 \<and> openpilotLongitudinalControl (CP s)) \<or> pcm_cancel_cmd CC CS then
        [if pcm_cancel_cmd CC CS \<and> carFingerprint (CP s) \<in> UNSUPPORTED_DSU_CAR ex
         then create_acc_cancel_command
         else if openpilotLongitudinalControl (CP s)
         then create_accel_command (pcm_accel_cmd s CC) (pcm_cancel_cmd CC CS)
                (standstill_req (fst (update ex s CC CS)))
                (leadVisible (hudControl CC) \<or> vEgo (out CS) < 12) (acc_type CS)
         else create_accel_command 0 (pcm_cancel_cmd CC CS) False
                (leadVisible (hudControl CC) \<or> vEgo (out CS) < 12) (acc_type CS)]
      else [])"
  by (simp add: long_part_def longitudinal_msgs_def Let_def pcm_accel_cmd_def
        update_standstill_req standstill_logic_req)

lemma gas_part_eq:
  "gas_part ex s CC CS =
     (if frame s mod 2 = 0 \<and> enableGasInterceptor (CP s) \<and> openpilotLongitudinalControl (CP s)
      then [create_gas_interceptor_command (interceptor_gas_cmd ex s CC CS) (frame s div 2)]
      else [])"
  by (simp add: gas_part_def gas_interceptor_msg_def)

lemma hud_part_eq:
  "hud_part s CC CS =
     (if carFingerprint (CP s) \<noteq> PRIUS_V then
        (if frame s mod 20 = 0 \<or> alert_now CC \<noteq> alert_active s \<or> pcm_cancel_cmd CC CS
         then [create_ui_command (visualAlert (hudControl CC) \<in> {steerRequired, ldw})
                 (pcm_cancel_cmd CC CS) (leftLaneVisible (hudControl CC))
                 (rightLaneVisible (hudControl CC)) (leftLaneDepart (hudControl CC))
                 (rightLaneDepart (hudControl CC)) (enabled CC) (lkas_hud CS)]
         else []) @
        (if (frame s mod 100 = 0 \<or> alert_now CC \<noteq> alert_active s \<or> pcm_cancel_cmd CC CS) \<and>
            enableDsu (CP s)
         then [create_fcw_command (visualAlert (hudControl CC) = fcw)] else [])
      else [])"
  by (auto simp add: hud_part_def hud_ui_def Let_def alert_now_def)

subsection \<open>A cycle that returns\<close>

lemma update_ok:
  assumes "no_zero_div ex s"
  shows "\<exists>acts. update ex s CC CS = (fst (update ex s CC CS), Inr (acts, cycle_sends ex s CC CS))"
  using assms by (simp add: update_eq cycle_sends_def)

lemma update_Inr_sends:
  assumes "update ex s CC CS = (s', Inr (acts, msgs))"
  shows "msgs = cycle_sends ex s CC CS" and "s' = fst (update ex s CC CS)"
  using update_Inr [OF assms] by (simp_all add: cycle_sends_def)

lemma steer_in_cycle_sends:
  "create_steer_command a r \<in> set (cycle_sends ex s CC CS) \<longleftrightarrow>
     a = fst (applied_steer ex s CC CS) \<and> r = snd (applied_steer ex s CC CS)"
  by (auto simp add: cycle_sends_def door_part_eq steer_part_eq long_part_eq gas_part_eq
        hud_part_eq static_part_def split: if_splits)


lemmas sample_defs = sample_externals_def sample_CP_def sample_params_def sample_Params_def
  sample_controller_def sample_CC_def sample_CS_def CarController_init_def

lemma sample_no_zero_div: "no_zero_div sample_externals sample_controller"
  by (simp add: no_zero_div_def sample_defs)

lemma before_static_last_steer:
  "last_steer (fst (before_static ex s CC CS)) = fst (applied_steer ex s CC CS)"
  by (simp add: before_static_def Let_def split_beta before_static_apply_steer)

lemma update_frame:
  "no_zero_div ex s \<Longrightarrow> frame (fst (update ex s CC CS)) = frame s + 1"
  by (simp add: update_eq)

lemma filter_ui_cycle_sends:
  "filter is_ui_cmd (cycle_sends ex s CC CS) =
     (if carFingerprint (CP s) \<noteq> PRIUS_V \<and>
         (frame s mod 20 = 0 \<or> alert_now CC \<noteq> alert_active s \<or> pcm_cancel_cmd CC CS)
      then [create_ui_command (visualAlert (hudControl CC) \<in> {steerRequired, ldw})
              (pcm_cancel_cmd CC CS) (leftLaneVisible (hudControl CC))
              (rightLaneVisible (hudControl CC)) (leftLaneDepart (hudControl CC))
              (rightLaneDepart (hudControl CC)) (enabled CC) (lkas_hud CS)]
      else [])"
proof -
  have "filter is_ui_cmd (door_part s CS) = []"
    by (simp add: door_part_eq)
  moreover have "filter is_ui_cmd (steer_part ex s CC CS) = []"
    by (simp add: steer_part_eq)
  moreover have "filter is_ui_cmd (long_part ex s CC CS) = []"
    by (simp add: long_part_eq)
  moreover have "filter is_ui_cmd (gas_part ex s CC CS) = []"
    by (simp add: gas_part_eq)
  moreover have "filter is_ui_cmd (static_part ex s) = []"
    by (simp add: static_part_def filter_empty_conv split_beta)
  moreover have "filter is_ui_cmd (hud_part s CC CS) =
     (if carFingerprint (CP s) \<noteq> PRIUS_V \<and>
         (frame s mod 20 = 0 \<or> alert_now CC \<noteq> alert_active s \<or> pcm_cancel_cmd CC CS)
      then [create_ui_command (visualAlert (hudControl CC) \<in> {steerRequired, ldw})
              (pcm_cancel_cmd CC CS) (leftLaneVisible (hudControl CC))
              (rightLaneVisible (hudControl CC)) (leftLaneDepart (hudControl CC))
              (rightLaneDepart (hudControl CC)) (enabled CC) (lkas_hud CS)]
      else [])"
    by (simp add: hud_part_eq)
  ultimately show ?thesis
    by (simp only: cycle_sends_def filter_append append_Nil append_Nil2)
qed

lemma update_alert_active_now:
  "alert_active (fst (update ex s CC CS)) =
     (if carFingerprint (CP s) \<noteq> PRIUS_V then alert_now CC else alert_active s)"
  by (simp add: update_alert_active alert_now_def)

lemma lta_in_cycle_sends:
  "create_lta_steer_command a act n x \<in> set (cycle_sends ex s CC CS) \<longleftrightarrow>
     (frame s mod 2 = 0 \<and> carFingerprint (CP s) \<in> TSS2_CAR ex) \<and>
     a = (if lat_active CC CS \<and> steerControlType (CP s) = angle
          then last_angle (fst (update ex s CC CS)) else 0) \<and>
     act = (lat_active CC CS \<and> steerControlType (CP s) = angle) \<and>
     n = frame s div 2 \<and>
     x = (if (lat_active CC CS \<and> steerControlType (CP s) = angle) \<and>
             \<bar>steeringTorqueEps (out CS)\<bar> < of_int (STEER_MAX (params s)) \<and>
             \<bar>steeringTorque (out CS)\<bar> < MAX_DRIVER_TORQUE_ALLOWANCE then 100 else 0)"
proof -
  have "create_lta_steer_command a act n x \<notin> set (door_part s CS)"
    by (simp add: door_part_eq)
  moreover have "create_lta_steer_command a act n x \<notin> set (long_part ex s CC CS)"
    by (simp add: long_part_eq)
  moreover have "create_lta_steer_command a act n x \<notin> set (gas_part ex s CC CS)"
    by (simp add: gas_part_eq)
  moreover have "create_lta_steer_command a act n x \<notin> set (hud_part s CC CS)"
    by (simp add: hud_part_eq)
  moreover have "create_lta_steer_command a act n x \<notin> set (static_part ex s)"
    by (auto simp add: static_part_def)
  ultimately show ?thesis
    by (auto simp add: cycle_sends_def steer_part_eq update_last_angle)
qed

lemma clip_abs: "0 \<le> m \<Longrightarrow> \<bar>clip x (- m) m\<bar> \<le> m"
  by (simp add: clip_def abs_le_iff)

lemma update_last_angle_bound:
  assumes "\<bar>last_angle s\<bar> \<le> MAX_STEER_ANGLE"
  shows "\<bar>last_angle (fst (update ex s CC CS))\<bar> \<le> MAX_STEER_ANGLE"
proof -
  have "0 \<le> MAX_STEER_ANGLE" by (simp add: MAX_STEER_ANGLE_def)
  from clip_abs [OF this] assms show ?thesis
    by (simp add: update_last_angle before_static_last_angle)
qed

lemma run_last_angle_bound:
  assumes "\<bar>last_angle s\<bar> \<le> MAX_STEER_ANGLE"
  shows "\<bar>last_angle (run ex s cycles)\<bar> \<le> MAX_STEER_ANGLE"
  using assms
proof (induction cycles arbitrary: s)
  case Nil
  then show ?case by simp
next
  case (Cons x cycles)
  obtain CC CS where x: "x = (CC, CS)" by (cases x)
  from Cons.prems have "\<bar>last_angle (fst (update ex s CC CS))\<bar> \<le> MAX_STEER_ANGLE"
    by (rule update_last_angle_bound)
  then show ?case
    unfolding x run.simps by (rule Cons.IH)
qed

lemma door_cmds_cycle_sends: "door_cmds (cycle_sends ex s CC CS) = door_part s CS"
proof -
  have "\<forall>m \<in> set (door_part s CS). \<not> is_steer_cmd m"
    by (simp add: door_part_eq)
  moreover have "steer_part ex s CC CS \<noteq> [] \<and> is_steer_cmd (hd (steer_part ex s CC CS))"
    by (simp add: steer_part_eq)
  ultimately show ?thesis
    unfolding door_cmds_def cycle_sends_def
    by (cases "steer_part ex s CC CS") (simp_all add: takeWhile_append2)
qed

lemma update_door_state:
  "dp_toyota_auto_lock_once (fst (update ex s CC CS)) =
     (if doorOpen (out CS) then dp_toyota_auto_lock_once s
      else if gearShifter (out CS) = park \<and> dp_toyota_auto_lock_gear_prev s \<noteq> park then False
      else if gearShifter (out CS) = drive \<and> \<not> dp_toyota_auto_lock_once s \<and>
              LOCK_AT_SPEED \<le> vEgo (out CS) then True
      else dp_toyota_auto_lock_once s)"
  "dp_toyota_auto_lock_gear_prev (fst (update ex s CC CS)) =
     (if doorOpen (out CS) then dp_toyota_auto_lock_gear_prev s else gearShifter (out CS))"
  by (simp_all only: update_once update_prev door_logic_once door_logic_prev)

lemma LOCK_AT_SPEED_eq: "LOCK_AT_SPEED = 25 / 9"
  by (simp add: LOCK_AT_SPEED_def KPH_TO_MS_def)

lemma door_part_kind:
  "list_all is_door_cmd (door_part s CS) \<and> length (door_part s CS) \<le> 1"
  by (simp add: door_part_eq is_door_cmd_def)

lemma steer_part_kind:
  "\<exists>steer lta. steer_part ex s CC CS = [steer] @ lta \<and> is_steer_cmd steer \<and>
     list_all is_lta_cmd lta \<and> length lta \<le> 1"
  by (simp add: steer_part_eq)

lemma long_part_kind:
  "list_all is_long_cmd (long_part ex s CC CS) \<and> length (long_part ex s CC CS) \<le> 1"
  by (simp add: long_part_eq)

lemma gas_part_kind:
  "list_all is_gas_cmd (gas_part ex s CC CS) \<and> length (gas_part ex s CC CS) \<le> 1"
  by (simp add: gas_part_eq)

lemma hud_part_kind:
  "\<exists>ui fcw. hud_part s CC CS = ui @ fcw \<and> list_all is_ui_cmd ui \<and> length ui \<le> 1 \<and>
     list_all is_fcw_cmd fcw \<and> length fcw \<le> 1"
proof (cases "carFingerprint (CP s) = PRIUS_V")
  case True
  then have "hud_part s CC CS = [] @ []" by (simp add: hud_part_eq)
  then show ?thesis by force
next
  case False
  let ?ui = "if frame s mod 20 = 0 \<or> alert_now CC \<noteq> alert_active s \<or> pcm_cancel_cmd CC CS
         then [create_ui_command (visualAlert (hudControl CC) \<in> {steerRequired, ldw})
                 (pcm_cancel_cmd CC CS) (leftLaneVisible (hudControl CC))
                 (rightLaneVisible (hudControl CC)) (leftLaneDepart (hudControl CC))
                 (rightLaneDepart (hudControl CC)) (enabled CC) (lkas_hud CS)]
         else []"
  let ?fcw = "if (frame s mod 100 = 0 \<or> alert_now CC \<noteq> alert_active s \<or> pcm_cancel_cmd CC CS) \<and>
            enableDsu (CP s)
         then [create_fcw_command (visualAlert (hudControl CC) = fcw)] else []"
  from False have "hud_part s CC CS = ?ui @ ?fcw" by (simp add: hud_part_eq)
  moreover have "list_all is_ui_cmd ?ui \<and> length ?ui \<le> 1" by simp
  moreover have "list_all is_fcw_cmd ?fcw \<and> length ?fcw \<le> 1" by simp
  ultimately show ?thesis by blast
qed

subsection \<open>One cycle, evaluated\<close>

text \<open>
  The first cycle of the sample controller, at rest in drive: the definitions compute, and
  the result is the one a reading of the source gives.
\<close>

lemma update_sample_cycle:
  "update sample_externals sample_controller sample_CC sample_CS_slow =
     (sample_controller\<lparr>frame := 1, last_steer := 150, CarController.gas := 3 / 100,
         CarController.accel := 1 / 2, dp_toyota_auto_lock_gear_prev := drive\<rparr>,
      Inr ((actuators sample_CC)\<lparr>steer := 1 / 10, Actuators.gas := 3 / 100, steerOutputCan := 150\<rparr>,
           [create_steer_command 150 1,
            create_accel_command (1 / 2) False False True 1,
            create_gas_interceptor_command (3 / 100) 0,
            create_ui_command False False True True False False True [],
            create_fcw_command False,
            make_can_msg 0x128 [0xf4, 0x01, 0x90, 0x83, 0x00, 0x37] 1]))"
  by (simp add: update_def door_logic_def steer_torque_def steer_angle_def steer_msgs_def
        interceptor_gas_cmd_def pcm_accel_cmd_def pcm_cancel_cmd_def standstill_logic_def
        longitudinal_msgs_def gas_interceptor_msg_def hud_ui_def lat_active_def clip_def
        py_round_def Let_def sample_defs sample_CS_slow_def MAX_USER_TORQUE_def
        MAX_STEER_RATE_def MAX_STEER_RATE_FRAMES_def LOCK_AT_SPEED_def KPH_TO_MS_def)

section \<open>Claims\<close>




lemma clip_bounds: "lo \<le> hi \<Longrightarrow> lo \<le> clip x lo hi \<and> clip x lo hi \<le> hi"
  by (simp add: clip_def)

lemma gas_in_cycle_sends:
  "create_gas_interceptor_command g n \<in> set (cycle_sends ex s CC CS) \<longleftrightarrow>
     (frame s mod 2 = 0 \<and> enableGasInterceptor (CP s) \<and> openpilotLongitudinalControl (CP s)) \<and>
     g = interceptor_gas_cmd ex s CC CS \<and> n = frame s div 2"
  by (auto simp add: cycle_sends_def door_part_eq steer_part_eq long_part_eq gas_part_eq
        hud_part_eq static_part_def split: if_splits)

lemma interceptor_gas_cmd_eq:
  "interceptor_gas_cmd ex s CC CS =
     (if enableGasInterceptor (CP s) \<and> longActive CC
      then clip (pedal_scale ex (carFingerprint (CP s)) (vEgo (out CS)) *
                 (Actuators.accel (actuators CC) + pedal_offset ex (vEgo (out CS)))) 0 0.5
      else 0)"
  unfolding interceptor_gas_cmd_def pedal_scale_def pedal_offset_def Let_def
  by (simp cong: if_cong del: interp.simps)

text \<open>
  C2. Pedal-emulation zero guarantee. The pedal command of a cycle is 0 when longitudinal
  control is inactive or the vehicle has no gas interceptor; otherwise it is the scale of
  the vehicle's class, interpolated over speed, times the desired acceleration plus the
  interpolated offset, clamped to [0, 0.5]. Every gas-interceptor message a cycle sends
  carries that command.
\<close>

theorem pedal_command_zero_or_scaled:
  "(\<not> longActive CC \<or> \<not> enableGasInterceptor (CP s) \<longrightarrow> interceptor_gas_cmd ex s CC CS = 0) \<and>
   (longActive CC \<and> enableGasInterceptor (CP s) \<longrightarrow>
      interceptor_gas_cmd ex s CC CS =
        clip (pedal_scale ex (carFingerprint (CP s)) (vEgo (out CS)) *
              (Actuators.accel (actuators CC) + pedal_offset ex (vEgo (out CS)))) 0 0.5) \<and>
   0 \<le> interceptor_gas_cmd ex s CC CS \<and> interceptor_gas_cmd ex s CC CS \<le> 0.5 \<and>
   (\<forall>s' acts msgs g n.
      update ex s CC CS = (s', Inr (acts, msgs)) \<and> create_gas_interceptor_command g n \<in> set msgs
      \<longrightarrow> g = interceptor_gas_cmd ex s CC CS)"
proof -
  have "(0::real) \<le> 0.5" by simp
  from clip_bounds [OF this]
  have b: "0 \<le> interceptor_gas_cmd ex s CC CS \<and> interceptor_gas_cmd ex s CC CS \<le> 0.5"
    by (simp add: interceptor_gas_cmd_eq)
  have m: "g = interceptor_gas_cmd ex s CC CS"
    if "update ex s CC CS = (s', Inr (acts, msgs))"
      and "create_gas_interceptor_command g n \<in> set msgs" for s' acts msgs g n
    using that update_Inr_sends(1) [OF that(1)] by (simp add: gas_in_cycle_sends)
  show ?thesis
    using b m by (auto simp add: interceptor_gas_cmd_eq)
qed

theorem pedal_command_zero_or_scaled_witness:
  "longActive sample_CC \<and> enableGasInterceptor (CP sample_controller) \<and>
   \<not> longActive sample_CC_off \<and>
   interceptor_gas_cmd sample_externals sample_controller sample_CC_off sample_CS = 0 \<and>
   interceptor_gas_cmd sample_externals sample_controller sample_CC sample_CS_slow = 3 / 100 \<and>
   (\<exists>s' acts msgs.
      update sample_externals sample_controller sample_CC sample_CS_slow = (s', Inr (acts, msgs)) \<and>
      create_gas_interceptor_command (3 / 100) 0 \<in> set msgs)"
proof -
  have h: "longActive sample_CC" "enableGasInterceptor (CP sample_controller)"
    "\<not> longActive sample_CC_off"
    by (simp_all add: sample_defs sample_CC_off_def)
  note th = pedal_command_zero_or_scaled [of _ sample_controller sample_externals]
  have z: "interceptor_gas_cmd sample_externals sample_controller sample_CC_off sample_CS = 0"
    using th [of sample_CC_off sample_CS] h by blast
  have e: "interceptor_gas_cmd sample_externals sample_controller sample_CC CS =
        clip (pedal_scale sample_externals (carFingerprint (CP sample_controller)) (vEgo (out CS)) *
              (Actuators.accel (actuators sample_CC) + pedal_offset sample_externals (vEgo (out CS)))) 0 0.5"
    for CS
    using th [of sample_CC CS] h by blast
  have slow: "interceptor_gas_cmd sample_externals sample_controller sample_CC sample_CS_slow = 3 / 100"
    unfolding e by (simp add: sample_defs sample_CS_slow_def pedal_scale_def pedal_offset_def clip_def)
  from update_ok [OF sample_no_zero_div, of sample_CC sample_CS_slow] obtain acts where
    u: "update sample_externals sample_controller sample_CC sample_CS_slow =
          (fst (update sample_externals sample_controller sample_CC sample_CS_slow),
           Inr (acts, cycle_sends sample_externals sample_controller sample_CC sample_CS_slow))"
    by blast
  have "create_gas_interceptor_command (3 / 100) 0 \<in>
          set (cycle_sends sample_externals sample_controller sample_CC sample_CS_slow)"
    by (simp add: gas_in_cycle_sends slow) (simp add: sample_defs)
  with u h z slow show ?thesis by blast
qed

text \<open>
  C3, as the specification words it, fails at a driver torque of exactly 500: the torque
  does not exceed the threshold, the caller asks for lateral control, and the cycle still
  treats lateral control as inactive and sends torque 0 with request 0, although the limit
  function passed a torque of 150 through.
\<close>

theorem user_override_at_threshold_counterexample:
  "latActive sample_CC \<and>
   \<not> MAX_USER_TORQUE < \<bar>steeringTorque (out sample_CS_torque500)\<bar> \<and>
   \<not> lat_active sample_CC sample_CS_torque500 \<and>
   apply_meas_steer_torque_limits sample_externals
     (py_round (steer (actuators sample_CC) * of_int (STEER_MAX (params sample_controller))))
     (last_steer sample_controller) (steeringTorqueEps (out sample_CS_torque500))
     (params sample_controller) = 150 \<and>
   create_steer_command 0 0 \<in>
     set (cycle_sends sample_externals sample_controller sample_CC sample_CS_torque500) \<and>
   (\<exists>acts. update sample_externals sample_controller sample_CC sample_CS_torque500 =
      (fst (update sample_externals sample_controller sample_CC sample_CS_torque500),
       Inr (acts, cycle_sends sample_externals sample_controller sample_CC sample_CS_torque500)))"
proof -
  have 1: "\<not> lat_active sample_CC sample_CS_torque500"
    by (simp add: lat_active_def sample_defs sample_CS_torque500_def MAX_USER_TORQUE_def)
  then have "applied_steer sample_externals sample_controller sample_CC sample_CS_torque500 = (0, 0)"
    by (simp add: applied_steer_eq)
  then have 2: "create_steer_command 0 0 \<in>
     set (cycle_sends sample_externals sample_controller sample_CC sample_CS_torque500)"
    by (simp add: steer_in_cycle_sends)
  have 3: "py_round (steer (actuators sample_CC) * of_int (STEER_MAX (params sample_controller))) = 150"
    by (simp add: py_round_def sample_defs)
  show ?thesis
    using 1 2 update_ok [OF sample_no_zero_div, of sample_CC sample_CS_torque500]
    by (simp add: 3) (simp add: sample_defs sample_CS_torque500_def MAX_USER_TORQUE_def)
qed

text \<open>
  C3, amended. Lateral control is treated as inactive exactly when the caller does not
  request it or the magnitude of the driver torque is at or above 500. When it is
  inactive, a cycle that returns sends the steer command with torque 0 and request 0 and
  no other steer command, stores 0 as the last torque and echoes 0 in both steer fields.
\<close>

theorem user_override_deactivation:
  "(\<not> lat_active CC CS \<longleftrightarrow> \<not> latActive CC \<or> 500 \<le> \<bar>steeringTorque (out CS)\<bar>) \<and>
   (\<not> lat_active CC CS \<and> no_zero_div ex s \<longrightarrow>
      (\<exists>s' acts msgs. update ex s CC CS = (s', Inr (acts, msgs)) \<and>
         create_steer_command 0 0 \<in> set msgs \<and>
         (\<forall>a r. create_steer_command a r \<in> set msgs \<longrightarrow> a = 0 \<and> r = 0) \<and>
         last_steer s' = 0 \<and> steerOutputCan acts = 0 \<and> steer acts = 0))"
proof (intro conjI impI)
  show "\<not> lat_active CC CS \<longleftrightarrow> \<not> latActive CC \<or> 500 \<le> \<bar>steeringTorque (out CS)\<bar>"
    by (auto simp add: lat_active_def MAX_USER_TORQUE_def)
next
  assume h: "\<not> lat_active CC CS \<and> no_zero_div ex s"
  then have ap: "applied_steer ex s CC CS = (0, 0)"
    by (simp add: applied_steer_eq)
  from h have "update ex s CC CS =
      ((fst (before_static ex s CC CS))\<lparr>frame := frame s + 1\<rparr>,
       Inr ((actuators CC)
              \<lparr>steer := 0,
               Actuators.steeringAngleDeg := last_angle (fst (before_static ex s CC CS)),
               Actuators.accel := CarController.accel (fst (before_static ex s CC CS)),
               Actuators.gas := CarController.gas (fst (before_static ex s CC CS)),
               steerOutputCan := 0\<rparr>,
            cycle_sends ex s CC CS))"
    by (simp add: update_returns ap cycle_sends_def)
  moreover have "last_steer (fst (before_static ex s CC CS)) = 0"
    using ap by (simp add: before_static_last_steer)
  moreover have "create_steer_command 0 0 \<in> set (cycle_sends ex s CC CS)"
    by (simp add: steer_in_cycle_sends ap)
  moreover have "\<forall>a r. create_steer_command a r \<in> set (cycle_sends ex s CC CS) \<longrightarrow> a = 0 \<and> r = 0"
    by (simp add: steer_in_cycle_sends ap)
  ultimately show "\<exists>s' acts msgs. update ex s CC CS = (s', Inr (acts, msgs)) \<and>
         create_steer_command 0 0 \<in> set msgs \<and>
         (\<forall>a r. create_steer_command a r \<in> set msgs \<longrightarrow> a = 0 \<and> r = 0) \<and>
         last_steer s' = 0 \<and> steerOutputCan acts = 0 \<and> steer acts = 0"
    by simp
qed

theorem user_override_deactivation_witness:
  "\<not> lat_active sample_CC sample_CS_torque600 \<and>
   latActive sample_CC \<and> 500 \<le> \<bar>steeringTorque (out sample_CS_torque600)\<bar> \<and>
   no_zero_div sample_externals sample_controller \<and>
   (\<exists>s' acts msgs.
      update sample_externals sample_controller sample_CC sample_CS_torque600 = (s', Inr (acts, msgs)) \<and>
      create_steer_command 0 0 \<in> set msgs \<and>
      (\<forall>a r. create_steer_command a r \<in> set msgs \<longrightarrow> a = 0 \<and> r = 0) \<and>
      last_steer s' = 0 \<and> steerOutputCan acts = 0 \<and> steer acts = 0)"
proof -
  have h: "latActive sample_CC" "500 \<le> \<bar>steeringTorque (out sample_CS_torque600)\<bar>"
    by (simp_all add: sample_defs sample_CS_torque600_def)
  note th = user_override_deactivation [of sample_CC sample_CS_torque600 sample_externals sample_controller]
  from th h have 1: "\<not> lat_active sample_CC sample_CS_torque600" by blast
  with th sample_no_zero_div h show ?thesis by blast
qed

lemma filter_long_cycle_sends:
  "filter is_long_cmd (cycle_sends ex s CC CS) = long_part ex s CC CS"
proof -
  have "filter is_long_cmd (door_part s CS) = []"
    by (simp add: door_part_eq)
  moreover have "filter is_long_cmd (steer_part ex s CC CS) = []"
    by (simp add: steer_part_eq)
  moreover have "filter is_long_cmd (long_part ex s CC CS) = long_part ex s CC CS"
    by (simp add: long_part_eq)
  moreover have "filter is_long_cmd (gas_part ex s CC CS) = []"
    by (simp add: gas_part_eq)
  moreover have "filter is_long_cmd (hud_part s CC CS) = []"
    by (simp add: hud_part_eq)
  moreover have "filter is_long_cmd (static_part ex s) = []"
    by (simp add: static_part_def filter_empty_conv split_beta)
  ultimately show ?thesis
    by (simp only: cycle_sends_def filter_append append_Nil append_Nil2)
qed

lemma length_long_part:
  "length (long_part ex s CC CS) =
     (if (frame s mod 3 = 0 \<and> openpilotLongitudinalControl (CP s)) \<or> pcm_cancel_cmd CC CS
      then 1 else 0)"
  by (simp add: long_part_eq)

text \<open>
  C4. Longitudinal message cadence with immediate cancel. A cycle that returns sends one
  accel or cancel message when the frame is a multiple of 3 on a vehicle with openpilot
  longitudinal control, or when a cancel is pending, and none otherwise. A cancel is
  pending when the caller asks for it or when the caller reports the system disabled while
  the cruise system is engaged. The message of a cycle with a pending cancel is the cancel
  itself, at any frame: the dedicated cancel message on a vehicle of the unsupported-DSU
  class, and otherwise the accel message with its cancel flag set. Without a pending
  cancel, with longitudinal control, frame 300 sends the accel message with the clamped
  acceleration and the cancel flag clear, and frame 301 sends none.
\<close>

theorem longitudinal_message_cadence:
  "no_zero_div ex s \<longrightarrow>
     (\<exists>s' acts msgs. update ex s CC CS = (s', Inr (acts, msgs)) \<and>
        length (filter is_long_cmd msgs) =
          (if (frame s mod 3 = 0 \<and> openpilotLongitudinalControl (CP s)) \<or> pcm_cancel_cmd CC CS
           then 1 else 0) \<and>
        filter is_long_cmd msgs =
          (if (frame s mod 3 = 0 \<and> openpilotLongitudinalControl (CP s)) \<or> pcm_cancel_cmd CC CS
           then [if pcm_cancel_cmd CC CS \<and> carFingerprint (CP s) \<in> UNSUPPORTED_DSU_CAR ex
                 then create_acc_cancel_command
                 else if openpilotLongitudinalControl (CP s)
                 then create_accel_command
                        (clip (Actuators.accel (actuators CC)) (ACCEL_MIN (params s)) (ACCEL_MAX (params s)))
                        (pcm_cancel_cmd CC CS) (standstill_req s')
                        (leadVisible (hudControl CC) \<or> vEgo (out CS) < 12) (acc_type CS)
                 else create_accel_command 0 (pcm_cancel_cmd CC CS) False
                        (leadVisible (hudControl CC) \<or> vEgo (out CS) < 12) (acc_type CS)]
           else []) \<and>
        (pcm_cancel_cmd CC CS \<longleftrightarrow>
           cancel (cruiseControl CC) \<or> (\<not> enabled CC \<and> pcm_acc_status CS \<noteq> 0)) \<and>
        (pcm_cancel_cmd CC CS \<longrightarrow>
           length (filter is_long_cmd msgs) = 1 \<and>
           filter is_long_cmd msgs =
             [if carFingerprint (CP s) \<in> UNSUPPORTED_DSU_CAR ex then create_acc_cancel_command
              else if openpilotLongitudinalControl (CP s)
              then create_accel_command
                     (clip (Actuators.accel (actuators CC)) (ACCEL_MIN (params s)) (ACCEL_MAX (params s)))
                     True (standstill_req s')
                     (leadVisible (hudControl CC) \<or> vEgo (out CS) < 12) (acc_type CS)
              else create_accel_command 0 True False
                     (leadVisible (hudControl CC) \<or> vEgo (out CS) < 12) (acc_type CS)]) \<and>
        (frame s = 300 \<and> openpilotLongitudinalControl (CP s) \<and> \<not> pcm_cancel_cmd CC CS \<longrightarrow>
           length (filter is_long_cmd msgs) = 1 \<and>
           filter is_long_cmd msgs =
             [create_accel_command
                (clip (Actuators.accel (actuators CC)) (ACCEL_MIN (params s)) (ACCEL_MAX (params s)))
                False (standstill_req s')
                (leadVisible (hudControl CC) \<or> vEgo (out CS) < 12) (acc_type CS)]) \<and>
        (frame s = 301 \<and> \<not> pcm_cancel_cmd CC CS \<longrightarrow> filter is_long_cmd msgs = []))"
proof
  assume "no_zero_div ex s"
  from update_ok [OF this] obtain acts where
    u: "update ex s CC CS = (fst (update ex s CC CS), Inr (acts, cycle_sends ex s CC CS))"
    by blast
  let ?s' = "fst (update ex s CC CS)"
  let ?msgs = "cycle_sends ex s CC CS"
  have f: "filter is_long_cmd ?msgs =
          (if (frame s mod 3 = 0 \<and> openpilotLongitudinalControl (CP s)) \<or> pcm_cancel_cmd CC CS
           then [if pcm_cancel_cmd CC CS \<and> carFingerprint (CP s) \<in> UNSUPPORTED_DSU_CAR ex
                 then create_acc_cancel_command
                 else if openpilotLongitudinalControl (CP s)
                 then create_accel_command
                        (clip (Actuators.accel (actuators CC)) (ACCEL_MIN (params s)) (ACCEL_MAX (params s)))
                        (pcm_cancel_cmd CC CS) (standstill_req ?s')
                        (leadVisible (hudControl CC) \<or> vEgo (out CS) < 12) (acc_type CS)
                 else create_accel_command 0 (pcm_cancel_cmd CC CS) False
                        (leadVisible (hudControl CC) \<or> vEgo (out CS) < 12) (acc_type CS)]
           else [])"
    by (simp only: filter_long_cycle_sends long_part_eq pcm_accel_cmd_def)
  have l: "length (filter is_long_cmd ?msgs) =
          (if (frame s mod 3 = 0 \<and> openpilotLongitudinalControl (CP s)) \<or> pcm_cancel_cmd CC CS
           then 1 else 0)"
    by (simp only: filter_long_cycle_sends length_long_part)
  have p: "pcm_cancel_cmd CC CS \<longleftrightarrow>
           cancel (cruiseControl CC) \<or> (\<not> enabled CC \<and> pcm_acc_status CS \<noteq> 0)"
    by (auto simp add: pcm_cancel_cmd_def)
  have c: "pcm_cancel_cmd CC CS \<longrightarrow>
           length (filter is_long_cmd ?msgs) = 1 \<and>
           filter is_long_cmd ?msgs =
             [if carFingerprint (CP s) \<in> UNSUPPORTED_DSU_CAR ex then create_acc_cancel_command
              else if openpilotLongitudinalControl (CP s)
              then create_accel_command
                     (clip (Actuators.accel (actuators CC)) (ACCEL_MIN (params s)) (ACCEL_MAX (params s)))
                     True (standstill_req ?s')
                     (leadVisible (hudControl CC) \<or> vEgo (out CS) < 12) (acc_type CS)
              else create_accel_command 0 True False
                     (leadVisible (hudControl CC) \<or> vEgo (out CS) < 12) (acc_type CS)]"
    unfolding f by simp
  have a: "frame s = 300 \<and> openpilotLongitudinalControl (CP s) \<and> \<not> pcm_cancel_cmd CC CS \<longrightarrow>
           length (filter is_long_cmd ?msgs) = 1 \<and>
           filter is_long_cmd ?msgs =
             [create_accel_command
                (clip (Actuators.accel (actuators CC)) (ACCEL_MIN (params s)) (ACCEL_MAX (params s)))
                False (standstill_req ?s')
                (leadVisible (hudControl CC) \<or> vEgo (out CS) < 12) (acc_type CS)]"
    unfolding f by simp
  have b: "frame s = 301 \<and> \<not> pcm_cancel_cmd CC CS \<longrightarrow> filter is_long_cmd ?msgs = []"
    unfolding f by simp
  from u l f p c a b
  show "\<exists>s' acts msgs. update ex s CC CS = (s', Inr (acts, msgs)) \<and>
        length (filter is_long_cmd msgs) =
          (if (frame s mod 3 = 0 \<and> openpilotLongitudinalControl (CP s)) \<or> pcm_cancel_cmd CC CS
           then 1 else 0) \<and>
        filter is_long_cmd msgs =
          (if (frame s mod 3 = 0 \<and> openpilotLongitudinalControl (CP s)) \<or> pcm_cancel_cmd CC CS
           then [if pcm_cancel_cmd CC CS \<and> carFingerprint (CP s) \<in> UNSUPPORTED_DSU_CAR ex
                 then create_acc_cancel_command
                 else if openpilotLongitudinalControl (CP s)
                 then create_accel_command
                        (clip (Actuators.accel (actuators CC)) (ACCEL_MIN (params s)) (ACCEL_MAX (params s)))
                        (pcm_cancel_cmd CC CS) (standstill_req s')
                        (leadVisible (hudControl CC) \<or> vEgo (out CS) < 12) (acc_type CS)
                 else create_accel_command 0 (pcm_cancel_cmd CC CS) False
                        (leadVisible (hudControl CC) \<or> vEgo (out CS) < 12) (acc_type CS)]
           else []) \<and>
        (pcm_cancel_cmd CC CS \<longleftrightarrow>
           cancel (cruiseControl CC) \<or> (\<not> enabled CC \<and> pcm_acc_status CS \<noteq> 0)) \<and>
        (pcm_cancel_cmd CC CS \<longrightarrow>
           length (filter is_long_cmd msgs) = 1 \<and>
           filter is_long_cmd msgs =
             [if carFingerprint (CP s) \<in> UNSUPPORTED_DSU_CAR ex then create_acc_cancel_command
              else if openpilotLongitudinalControl (CP s)
              then create_accel_command
                     (clip (Actuators.accel (actuators CC)) (ACCEL_MIN (params s)) (ACCEL_MAX (params s)))
                     True (standstill_req s')
                     (leadVisible (hudControl CC) \<or> vEgo (out CS) < 12) (acc_type CS)
              else create_accel_command 0 True False
                     (leadVisible (hudControl CC) \<or> vEgo (out CS) < 12) (acc_type CS)]) \<and>
        (frame s = 300 \<and> openpilotLongitudinalControl (CP s) \<and> \<not> pcm_cancel_cmd CC CS \<longrightarrow>
           length (filter is_long_cmd msgs) = 1 \<and>
           filter is_long_cmd msgs =
             [create_accel_command
                (clip (Actuators.accel (actuators CC)) (ACCEL_MIN (params s)) (ACCEL_MAX (params s)))
                False (standstill_req s')
                (leadVisible (hudControl CC) \<or> vEgo (out CS) < 12) (acc_type CS)]) \<and>
        (frame s = 301 \<and> \<not> pcm_cancel_cmd CC CS \<longrightarrow> filter is_long_cmd msgs = [])"
    by (intro exI [of _ ?s'] exI [of _ acts] exI [of _ ?msgs] conjI)
qed

theorem longitudinal_message_cadence_witness:
  "no_zero_div sample_externals sample_controller_300 \<and>
   no_zero_div sample_externals sample_controller_301 \<and>
   no_zero_div sample_externals sample_controller_lexus \<and>
   frame sample_controller_300 = 300 \<and> frame sample_controller_301 = 301 \<and>
   frame sample_controller_lexus = 301 \<and>
   openpilotLongitudinalControl (CP sample_controller_300) \<and>
   \<not> pcm_cancel_cmd sample_CC sample_CS \<and> pcm_cancel_cmd sample_CC_cancel sample_CS \<and>
   pcm_cancel_cmd sample_CC_disabled sample_CS \<and>
   (\<exists>s' acts msgs. update sample_externals sample_controller_300 sample_CC sample_CS = (s', Inr (acts, msgs)) \<and>
      length (filter is_long_cmd msgs) = 1 \<and>
      filter is_long_cmd msgs = [create_accel_command (1 / 2) False False False 1]) \<and>
   (\<exists>s' acts msgs. update sample_externals sample_controller_301 sample_CC sample_CS = (s', Inr (acts, msgs)) \<and>
      filter is_long_cmd msgs = []) \<and>
   (\<exists>s' acts msgs. update sample_externals sample_controller_301 sample_CC_cancel sample_CS = (s', Inr (acts, msgs)) \<and>
      length (filter is_long_cmd msgs) = 1 \<and>
      filter is_long_cmd msgs = [create_accel_command (1 / 2) True False False 1]) \<and>
   (\<exists>s' acts msgs. update sample_externals sample_controller_301 sample_CC_disabled sample_CS = (s', Inr (acts, msgs)) \<and>
      filter is_long_cmd msgs = [create_accel_command (1 / 2) True False False 1]) \<and>
   (\<exists>s' acts msgs. update sample_externals sample_controller_lexus sample_CC_cancel sample_CS = (s', Inr (acts, msgs)) \<and>
      filter is_long_cmd msgs = [create_acc_cancel_command])"
proof -
  have h: "no_zero_div sample_externals sample_controller_300"
    "no_zero_div sample_externals sample_controller_301"
    "no_zero_div sample_externals sample_controller_lexus"
    "frame sample_controller_300 = 300" "frame sample_controller_301 = 301"
    "frame sample_controller_lexus = 301"
    "openpilotLongitudinalControl (CP sample_controller_300)"
    "\<not> pcm_cancel_cmd sample_CC sample_CS" "pcm_cancel_cmd sample_CC_cancel sample_CS"
    "pcm_cancel_cmd sample_CC_disabled sample_CS"
    by (simp_all add: no_zero_div_def sample_defs sample_controller_300_def
          sample_controller_301_def sample_controller_lexus_def sample_CC_cancel_def
          sample_CC_disabled_def pcm_cancel_cmd_def)
  have sr: "\<not> standstill_req (fst (update sample_externals s CC sample_CS))"
    if "\<not> standstill_req s" for s CC
    using that by (simp add: update_standstill_req sample_defs)
  have v: "\<not> standstill_req sample_controller_300" "\<not> standstill_req sample_controller_301"
    "carFingerprint (CP sample_controller_301) \<notin> UNSUPPORTED_DSU_CAR sample_externals"
    "openpilotLongitudinalControl (CP sample_controller_301)"
    "carFingerprint (CP sample_controller_lexus) \<in> UNSUPPORTED_DSU_CAR sample_externals"
    "clip (Actuators.accel (actuators sample_CC)) (ACCEL_MIN sample_params) (ACCEL_MAX sample_params) = 1 / 2"
    "clip (Actuators.accel (actuators sample_CC_cancel)) (ACCEL_MIN sample_params) (ACCEL_MAX sample_params) = 1 / 2"
    "clip (Actuators.accel (actuators sample_CC_disabled)) (ACCEL_MIN sample_params) (ACCEL_MAX sample_params) = 1 / 2"
    "params sample_controller_300 = sample_params" "params sample_controller_301 = sample_params"
    "\<not> (leadVisible (hudControl sample_CC) \<or> vEgo (out sample_CS) < 12)"
    "\<not> (leadVisible (hudControl sample_CC_cancel) \<or> vEgo (out sample_CS) < 12)"
    "\<not> (leadVisible (hudControl sample_CC_disabled) \<or> vEgo (out sample_CS) < 12)"
    "acc_type sample_CS = 1"
    by (simp_all add: sample_defs sample_controller_300_def sample_controller_301_def
          sample_controller_lexus_def sample_CC_cancel_def sample_CC_disabled_def clip_def)
  from longitudinal_message_cadence [of sample_externals sample_controller_300 sample_CC sample_CS] h
  obtain s1 a1 m1 where
    a: "update sample_externals sample_controller_300 sample_CC sample_CS = (s1, Inr (a1, m1))"
      "length (filter is_long_cmd m1) = 1"
      "filter is_long_cmd m1 =
         [create_accel_command
            (clip (Actuators.accel (actuators sample_CC)) (ACCEL_MIN (params sample_controller_300))
               (ACCEL_MAX (params sample_controller_300)))
            False (standstill_req s1)
            (leadVisible (hudControl sample_CC) \<or> vEgo (out sample_CS) < 12) (acc_type sample_CS)]"
    by blast
  from a(1) have "s1 = fst (update sample_externals sample_controller_300 sample_CC sample_CS)"
    by simp
  with sr v have "\<not> standstill_req s1" by simp
  with a v have a': "filter is_long_cmd m1 = [create_accel_command (1 / 2) False False False 1]"
    by simp
  from longitudinal_message_cadence [of sample_externals sample_controller_301 sample_CC sample_CS] h
  obtain s2 a2 m2 where
    b: "update sample_externals sample_controller_301 sample_CC sample_CS = (s2, Inr (a2, m2))"
      "filter is_long_cmd m2 = []"
    by blast
  from longitudinal_message_cadence [of sample_externals sample_controller_301 sample_CC_cancel sample_CS] h
  obtain s3 a3 m3 where
    c: "update sample_externals sample_controller_301 sample_CC_cancel sample_CS = (s3, Inr (a3, m3))"
      "length (filter is_long_cmd m3) = 1"
      "filter is_long_cmd m3 =
         [if carFingerprint (CP sample_controller_301) \<in> UNSUPPORTED_DSU_CAR sample_externals
          then create_acc_cancel_command
          else if openpilotLongitudinalControl (CP sample_controller_301)
          then create_accel_command
                 (clip (Actuators.accel (actuators sample_CC_cancel)) (ACCEL_MIN (params sample_controller_301))
                    (ACCEL_MAX (params sample_controller_301)))
                 True (standstill_req s3)
                 (leadVisible (hudControl sample_CC_cancel) \<or> vEgo (out sample_CS) < 12) (acc_type sample_CS)
          else create_accel_command 0 True False
                 (leadVisible (hudControl sample_CC_cancel) \<or> vEgo (out sample_CS) < 12) (acc_type sample_CS)]"
    by blast
  from c(1) have "s3 = fst (update sample_externals sample_controller_301 sample_CC_cancel sample_CS)"
    by simp
  with sr v have "\<not> standstill_req s3" by simp
  with c v have c': "filter is_long_cmd m3 = [create_accel_command (1 / 2) True False False 1]"
    by simp
  from longitudinal_message_cadence [of sample_externals sample_controller_301 sample_CC_disabled sample_CS] h
  obtain s4 a4 m4 where
    d: "update sample_externals sample_controller_301 sample_CC_disabled sample_CS = (s4, Inr (a4, m4))"
      "filter is_long_cmd m4 =
         [if carFingerprint (CP sample_controller_301) \<in> UNSUPPORTED_DSU_CAR sample_externals
          then create_acc_cancel_command
          else if openpilotLongitudinalControl (CP sample_controller_301)
          then create_accel_command
                 (clip (Actuators.accel (actuators sample_CC_disabled)) (ACCEL_MIN (params sample_controller_301))
                    (ACCEL_MAX (params sample_controller_301)))
                 True (standstill_req s4)
                 (leadVisible (hudControl sample_CC_disabled) \<or> vEgo (out sample_CS) < 12) (acc_type sample_CS)
          else create_accel_command 0 True False
                 (leadVisible (hudControl sample_CC_disabled) \<or> vEgo (out sample_CS) < 12) (acc_type sample_CS)]"
    by blast
  from d(1) have "s4 = fst (update sample_externals sample_controller_301 sample_CC_disabled sample_CS)"
    by simp
  with sr v have "\<not> standstill_req s4" by simp
  with d v have d': "filter is_long_cmd m4 = [create_accel_command (1 / 2) True False False 1]"
    by simp
  from longitudinal_message_cadence [of sample_externals sample_controller_lexus sample_CC_cancel sample_CS] h
  obtain s5 a5 m5 where
    e: "update sample_externals sample_controller_lexus sample_CC_cancel sample_CS = (s5, Inr (a5, m5))"
      "filter is_long_cmd m5 =
         [if carFingerprint (CP sample_controller_lexus) \<in> UNSUPPORTED_DSU_CAR sample_externals
          then create_acc_cancel_command
          else if openpilotLongitudinalControl (CP sample_controller_lexus)
          then create_accel_command
                 (clip (Actuators.accel (actuators sample_CC_cancel)) (ACCEL_MIN (params sample_controller_lexus))
                    (ACCEL_MAX (params sample_controller_lexus)))
                 True (standstill_req s5)
                 (leadVisible (hudControl sample_CC_cancel) \<or> vEgo (out sample_CS) < 12) (acc_type sample_CS)
          else create_accel_command 0 True False
                 (leadVisible (hudControl sample_CC_cancel) \<or> vEgo (out sample_CS) < 12) (acc_type sample_CS)]"
    by blast
  with v have e': "filter is_long_cmd m5 = [create_acc_cancel_command]"
    by simp
  from h a(1,2) a' b c(1,2) c' d(1) d' e(1) e' show ?thesis by blast
qed

lemma standstill_req_run:
  assumes "standstill_req s" "\<forall>(CC, CS) \<in> set cycles. pcm_acc_status CS = 8"
  shows "standstill_req (run ex s cycles)"
  using assms
proof (induction cycles arbitrary: s)
  case Nil
  then show ?case by simp
next
  case (Cons x cycles)
  obtain CC CS where x: "x = (CC, CS)" by (cases x)
  from Cons.prems x have "standstill_req (fst (update ex s CC CS))"
    by (simp add: update_standstill_req)
  with Cons show ?case by (simp add: x)
qed

text \<open>
  C5. Standstill-request persistence. The request is set on a cycle that newly enters
  standstill (suppression flag unset, vehicle not in the no-stop-timer class or with a gas
  interceptor) while the cruise status is 8; once set it is still set after any number of
  cycles whose status is 8, whatever their standstill flags, and after their prefixes;
  and it is cleared by the first cycle whose status is not 8.
\<close>

theorem standstill_request_persistence:
  "(\<not> dp_toyota_sng s \<and> standstill (out CS) \<and> \<not> last_standstill s \<and>
    (carFingerprint (CP s) \<notin> NO_STOP_TIMER_CAR ex \<or> enableGasInterceptor (CP s)) \<and>
    pcm_acc_status CS = 8 \<longrightarrow> standstill_req (fst (update ex s CC CS))) \<and>
   (standstill_req s \<and> (\<forall>(CC, CS) \<in> set cycles. pcm_acc_status CS = 8) \<longrightarrow>
      (\<forall>k. standstill_req (run ex s (take k cycles))) \<and>
      (pcm_acc_status CS' \<noteq> 8 \<longrightarrow> \<not> standstill_req (fst (update ex (run ex s cycles) CC' CS'))))"
proof (intro conjI impI allI)
  assume "\<not> dp_toyota_sng s \<and> standstill (out CS) \<and> \<not> last_standstill s \<and>
    (carFingerprint (CP s) \<notin> NO_STOP_TIMER_CAR ex \<or> enableGasInterceptor (CP s)) \<and>
    pcm_acc_status CS = 8"
  then show "standstill_req (fst (update ex s CC CS))"
    by (simp add: update_standstill_req)
next
  fix k
  assume h: "standstill_req s \<and> (\<forall>(CC, CS) \<in> set cycles. pcm_acc_status CS = 8)"
  then have "\<forall>(CC, CS) \<in> set (take k cycles). pcm_acc_status CS = 8"
    by (meson in_set_takeD)
  with h show "standstill_req (run ex s (take k cycles))"
    by (intro standstill_req_run) simp_all
next
  assume "pcm_acc_status CS' \<noteq> 8"
  then show "\<not> standstill_req (fst (update ex (run ex s cycles) CC' CS'))"
    by (simp add: update_standstill_req)
qed

theorem standstill_request_persistence_witness:
  "\<not> dp_toyota_sng sample_controller \<and> standstill (out sample_CS_stopped) \<and>
   \<not> last_standstill sample_controller \<and> pcm_acc_status sample_CS_stopped = 8 \<and>
   pcm_acc_status sample_CS = 8 \<and> \<not> standstill (out sample_CS) \<and>
   pcm_acc_status sample_CS_released \<noteq> 8 \<and>
   standstill_req (fst (update sample_externals sample_controller sample_CC sample_CS_stopped)) \<and>
   standstill_req
     (run sample_externals
        (fst (update sample_externals sample_controller sample_CC sample_CS_stopped))
        [(sample_CC, sample_CS_stopped), (sample_CC, sample_CS)]) \<and>
   \<not> standstill_req
     (fst (update sample_externals
        (run sample_externals
           (fst (update sample_externals sample_controller sample_CC sample_CS_stopped))
           [(sample_CC, sample_CS_stopped), (sample_CC, sample_CS)])
        sample_CC sample_CS_released))"
proof -
  let ?s1 = "fst (update sample_externals sample_controller sample_CC sample_CS_stopped)"
  let ?cycles = "[(sample_CC, sample_CS_stopped), (sample_CC, sample_CS)]"
  have h: "\<not> dp_toyota_sng sample_controller" "standstill (out sample_CS_stopped)"
    "\<not> last_standstill sample_controller" "pcm_acc_status sample_CS_stopped = 8"
    "pcm_acc_status sample_CS = 8" "\<not> standstill (out sample_CS)"
    "pcm_acc_status sample_CS_released \<noteq> 8"
    "enableGasInterceptor (CP sample_controller)"
    by (simp_all add: sample_defs sample_CS_stopped_def sample_CS_released_def)
  have a: "standstill_req ?s1"
    using standstill_request_persistence
            [of sample_controller sample_CS_stopped sample_externals sample_CC] h
    by blast
  have all8: "\<forall>(CC, CS) \<in> set ?cycles. pcm_acc_status CS = 8"
    using h by simp
  from standstill_request_persistence [of ?s1 _ sample_externals _ ?cycles sample_CS_released sample_CC]
    a all8 h
  have b: "(\<forall>k. standstill_req (run sample_externals ?s1 (take k ?cycles))) \<and>
      \<not> standstill_req (fst (update sample_externals (run sample_externals ?s1 ?cycles)
                                sample_CC sample_CS_released))"
    by blast
  then have "standstill_req (run sample_externals ?s1 (take 2 ?cycles))" by blast
  then have "standstill_req (run sample_externals ?s1 ?cycles)" by simp
  with h a b show ?thesis by blast
qed

text \<open>
  C6, as the specification words it, fails for the Prius V: at frame 1, with a
  forward-collision alert raised and the latch clear, the cycle returns without any UI
  message and leaves the latch clear.
\<close>

theorem ui_alert_edge_prius_v_counterexample:
  "carFingerprint (CP sample_controller_prius_v) = PRIUS_V \<and>
   alert_now sample_CC_fcw \<and> \<not> alert_active sample_controller_prius_v \<and>
   filter is_ui_cmd (cycle_sends sample_externals sample_controller_prius_v sample_CC_fcw sample_CS) = [] \<and>
   \<not> alert_active (fst (update sample_externals sample_controller_prius_v sample_CC_fcw sample_CS)) \<and>
   (\<exists>acts. update sample_externals sample_controller_prius_v sample_CC_fcw sample_CS =
      (fst (update sample_externals sample_controller_prius_v sample_CC_fcw sample_CS),
       Inr (acts, cycle_sends sample_externals sample_controller_prius_v sample_CC_fcw sample_CS)))"
proof -
  have nz: "no_zero_div sample_externals sample_controller_prius_v"
    by (simp add: no_zero_div_def sample_defs sample_controller_prius_v_def)
  have h: "carFingerprint (CP sample_controller_prius_v) = PRIUS_V"
    "alert_now sample_CC_fcw" "\<not> alert_active sample_controller_prius_v"
    by (simp_all add: sample_defs sample_controller_prius_v_def sample_CC_fcw_def alert_now_def)
  then show ?thesis
    using update_ok [OF nz, of sample_CC_fcw sample_CS]
    by (simp add: filter_ui_cycle_sends update_alert_active_now)
qed

text \<open>
  C6, amended. On every vehicle but the Prius V: after a cycle the latch equals the alert
  condition (forward-collision, steer-required or lane-departure) the cycle computed; a
  returning cycle whose alert condition differs from the latch sends one UI message,
  whatever the frame, and toggles the latch; and the cycle after it, with the same alert
  condition, no pending cancel and a frame off the 20-cycle cadence, sends no UI message.
\<close>

theorem ui_alert_edge_emission:
  "carFingerprint (CP s) \<noteq> PRIUS_V \<longrightarrow>
     alert_active (fst (update ex s CC CS)) = alert_now CC \<and>
     (no_zero_div ex s \<and> alert_now CC \<noteq> alert_active s \<longrightarrow>
        (\<exists>s' acts msgs. update ex s CC CS = (s', Inr (acts, msgs)) \<and>
           length (filter is_ui_cmd msgs) = 1 \<and> alert_active s' = (\<not> alert_active s))) \<and>
     (no_zero_div ex s \<and> alert_now CC2 = alert_now CC \<and> \<not> pcm_cancel_cmd CC2 CS2 \<and>
      (frame s + 1) mod 20 \<noteq> 0 \<longrightarrow>
        (\<exists>s'' acts msgs. update ex (fst (update ex s CC CS)) CC2 CS2 = (s'', Inr (acts, msgs)) \<and>
           filter is_ui_cmd msgs = [] \<and> alert_active s'' = alert_active (fst (update ex s CC CS))))"
proof (intro impI conjI)
  assume v: "carFingerprint (CP s) \<noteq> PRIUS_V"
  then show latch: "alert_active (fst (update ex s CC CS)) = alert_now CC"
    by (simp add: update_alert_active_now)
  {
    assume h: "no_zero_div ex s \<and> alert_now CC \<noteq> alert_active s"
    from update_ok [of ex s CC CS] h obtain acts where
      "update ex s CC CS = (fst (update ex s CC CS), Inr (acts, cycle_sends ex s CC CS))"
      by blast
    moreover have "length (filter is_ui_cmd (cycle_sends ex s CC CS)) = 1"
      using v h by (simp add: filter_ui_cycle_sends)
    moreover have "alert_active (fst (update ex s CC CS)) = (\<not> alert_active s)"
      using latch h by simp
    ultimately show "\<exists>s' acts msgs. update ex s CC CS = (s', Inr (acts, msgs)) \<and>
           length (filter is_ui_cmd msgs) = 1 \<and> alert_active s' = (\<not> alert_active s)"
      by blast
  }
  {
    assume h: "no_zero_div ex s \<and> alert_now CC2 = alert_now CC \<and> \<not> pcm_cancel_cmd CC2 CS2 \<and>
      (frame s + 1) mod 20 \<noteq> 0"
    let ?t = "fst (update ex s CC CS)"
    have nz: "no_zero_div ex ?t" using h by simp
    from update_ok [OF nz, of CC2 CS2] obtain acts where
      "update ex ?t CC2 CS2 = (fst (update ex ?t CC2 CS2), Inr (acts, cycle_sends ex ?t CC2 CS2))"
      by blast
    moreover have "filter is_ui_cmd (cycle_sends ex ?t CC2 CS2) = []"
      using v h latch by (simp add: filter_ui_cycle_sends update_frame)
    moreover have "alert_active (fst (update ex ?t CC2 CS2)) = alert_active ?t"
      using v h latch by (simp add: update_alert_active_now)
    ultimately show "\<exists>s'' acts msgs. update ex ?t CC2 CS2 = (s'', Inr (acts, msgs)) \<and>
           filter is_ui_cmd msgs = [] \<and> alert_active s'' = alert_active ?t"
      by blast
  }
qed

theorem ui_alert_edge_emission_witness:
  "carFingerprint (CP sample_controller_1) \<noteq> PRIUS_V \<and>
   no_zero_div sample_externals sample_controller_1 \<and>
   alert_now sample_CC_fcw \<and> \<not> alert_active sample_controller_1 \<and>
   \<not> pcm_cancel_cmd sample_CC_fcw sample_CS \<and> (frame sample_controller_1 + 1) mod 20 \<noteq> 0 \<and>
   alert_active (fst (update sample_externals sample_controller_1 sample_CC_fcw sample_CS)) \<and>
   (\<exists>s' acts msgs. update sample_externals sample_controller_1 sample_CC_fcw sample_CS = (s', Inr (acts, msgs)) \<and>
      length (filter is_ui_cmd msgs) = 1 \<and> alert_active s') \<and>
   (\<exists>s'' acts msgs.
      update sample_externals (fst (update sample_externals sample_controller_1 sample_CC_fcw sample_CS))
        sample_CC_fcw sample_CS = (s'', Inr (acts, msgs)) \<and>
      filter is_ui_cmd msgs = [] \<and> alert_active s'')"
proof -
  have h: "carFingerprint (CP sample_controller_1) \<noteq> PRIUS_V"
    "no_zero_div sample_externals sample_controller_1"
    "alert_now sample_CC_fcw" "\<not> alert_active sample_controller_1"
    "\<not> pcm_cancel_cmd sample_CC_fcw sample_CS" "(frame sample_controller_1 + 1) mod 20 \<noteq> 0"
    by (simp_all add: no_zero_div_def sample_defs sample_controller_1_def sample_CC_fcw_def
          alert_now_def pcm_cancel_cmd_def)
  note th = ui_alert_edge_emission
              [of sample_controller_1 sample_externals sample_CC_fcw sample_CS sample_CC_fcw sample_CS]
  from th h have a: "alert_active (fst (update sample_externals sample_controller_1 sample_CC_fcw sample_CS))"
    by blast
  from th h have b: "\<exists>s' acts msgs. update sample_externals sample_controller_1 sample_CC_fcw sample_CS = (s', Inr (acts, msgs)) \<and>
      length (filter is_ui_cmd msgs) = 1 \<and> alert_active s' = (\<not> alert_active sample_controller_1)"
    by blast
  from th h have c: "\<exists>s'' acts msgs.
      update sample_externals (fst (update sample_externals sample_controller_1 sample_CC_fcw sample_CS))
        sample_CC_fcw sample_CS = (s'', Inr (acts, msgs)) \<and>
      filter is_ui_cmd msgs = [] \<and>
      alert_active s'' = alert_active (fst (update sample_externals sample_controller_1 sample_CC_fcw sample_CS))"
    by blast
  from h a b c show ?thesis by auto
qed

text \<open>
  C7, as the specification words it, fails in its first cycle: 5 m/s is 18 km/h, above
  the threshold of 10 km/h, so a new controller with both flags set sends the lock
  command already in the cycle that drives at 5 m/s with the doors closed.
\<close>

theorem door_scenario_first_cycle_counterexample:
  "dp_toyota_auto_lock sample_controller \<and> dp_toyota_auto_unlock sample_controller \<and>
   \<not> doorOpen (out sample_CS_drive5) \<and> gearShifter (out sample_CS_drive5) = drive \<and>
   vEgo (out sample_CS_drive5) = 5 \<and>
   door_cmds (cycle_sends sample_externals sample_controller sample_CC sample_CS_drive5) =
     [make_can_msg 0x750 LOCK_CMD 0] \<and>
   (\<exists>acts. update sample_externals sample_controller sample_CC sample_CS_drive5 =
      (fst (update sample_externals sample_controller sample_CC sample_CS_drive5),
       Inr (acts, cycle_sends sample_externals sample_controller sample_CC sample_CS_drive5)))"
proof -
  have "door_part sample_controller sample_CS_drive5 = [make_can_msg 0x750 LOCK_CMD 0]"
    by (simp add: door_part_eq sample_defs sample_CS_drive5_def LOCK_AT_SPEED_eq)
  then show ?thesis
    using update_ok [OF sample_no_zero_div, of sample_CC sample_CS_drive5]
    by (simp add: door_cmds_cycle_sends) (simp add: sample_defs sample_CS_drive5_def)
qed

text \<open>
  C7, amended. The lock threshold is 25/9 m/s. From a new controller with both flags set
  and the doors closed in all four cycles, the cycles drive at some speed, drive at
  12 m/s, park, drive at 12 m/s all return, and their door commands are: in the first a
  lock command when its speed is at or above the threshold (as 5 m/s is) and none
  otherwise; in the second none when the first one locked and a lock command otherwise;
  in the third one unlock command; in the fourth one lock command.
\<close>

theorem door_automation_scenario:
  "LOCK_AT_SPEED = 25 / 9 \<and>
   (no_zero_div ex (CarController_init cp cparams p) \<and>
    p_dp_toyota_auto_lock p \<and> p_dp_toyota_auto_unlock p \<and>
    \<not> doorOpen (out CS1) \<and> \<not> doorOpen (out CS2) \<and> \<not> doorOpen (out CS3) \<and> \<not> doorOpen (out CS4) \<and>
    gearShifter (out CS1) = drive \<and>
    gearShifter (out CS2) = drive \<and> vEgo (out CS2) = 12 \<and>
    gearShifter (out CS3) = park \<and>
    gearShifter (out CS4) = drive \<and> vEgo (out CS4) = 12 \<longrightarrow>
    (\<exists>s1 a1 m1 s2 a2 m2 s3 a3 m3 s4 a4 m4.
       update ex (CarController_init cp cparams p) CC1 CS1 = (s1, Inr (a1, m1)) \<and>
       update ex s1 CC2 CS2 = (s2, Inr (a2, m2)) \<and>
       update ex s2 CC3 CS3 = (s3, Inr (a3, m3)) \<and>
       update ex s3 CC4 CS4 = (s4, Inr (a4, m4)) \<and>
       door_cmds m1 =
         (if LOCK_AT_SPEED \<le> vEgo (out CS1) then [make_can_msg 0x750 LOCK_CMD 0] else []) \<and>
       door_cmds m2 =
         (if LOCK_AT_SPEED \<le> vEgo (out CS1) then [] else [make_can_msg 0x750 LOCK_CMD 0]) \<and>
       door_cmds m3 = [make_can_msg 0x750 UNLOCK_CMD 0] \<and>
       door_cmds m4 = [make_can_msg 0x750 LOCK_CMD 0]))"
proof (intro conjI impI)
  show "LOCK_AT_SPEED = 25 / 9" by (rule LOCK_AT_SPEED_eq)
next
  define s0 where "s0 = CarController_init cp cparams p"
  define s1 where "s1 = fst (update ex s0 CC1 CS1)"
  define s2 where "s2 = fst (update ex s1 CC2 CS2)"
  define s3 where "s3 = fst (update ex s2 CC3 CS3)"
  define s4 where "s4 = fst (update ex s3 CC4 CS4)"
  assume h: "no_zero_div ex (CarController_init cp cparams p) \<and>
    p_dp_toyota_auto_lock p \<and> p_dp_toyota_auto_unlock p \<and>
    \<not> doorOpen (out CS1) \<and> \<not> doorOpen (out CS2) \<and> \<not> doorOpen (out CS3) \<and> \<not> doorOpen (out CS4) \<and>
    gearShifter (out CS1) = drive \<and>
    gearShifter (out CS2) = drive \<and> vEgo (out CS2) = 12 \<and>
    gearShifter (out CS3) = park \<and>
    gearShifter (out CS4) = drive \<and> vEgo (out CS4) = 12"
  have nz: "no_zero_div ex s0" "no_zero_div ex s1" "no_zero_div ex s2" "no_zero_div ex s3"
    using h by (simp_all add: s0_def s1_def s2_def s3_def)
  have fl: "dp_toyota_auto_lock s0" "dp_toyota_auto_unlock s0"
    "dp_toyota_auto_lock s1" "dp_toyota_auto_unlock s1"
    "dp_toyota_auto_lock s2" "dp_toyota_auto_unlock s2"
    "dp_toyota_auto_lock s3" "dp_toyota_auto_unlock s3"
    using h by (simp_all add: s0_def s1_def s2_def s3_def CarController_init_def)
  have d0: "\<not> dp_toyota_auto_lock_once s0" "dp_toyota_auto_lock_gear_prev s0 = park"
    by (simp_all add: s0_def CarController_init_def)
  have d1: "dp_toyota_auto_lock_once s1 = (LOCK_AT_SPEED \<le> vEgo (out CS1))"
    "dp_toyota_auto_lock_gear_prev s1 = drive"
    using h d0 by (simp_all add: s1_def update_door_state)
  have d2: "dp_toyota_auto_lock_once s2" "dp_toyota_auto_lock_gear_prev s2 = drive"
    using h d1 by (simp_all add: s2_def update_door_state LOCK_AT_SPEED_eq)
  have d3: "\<not> dp_toyota_auto_lock_once s3" "dp_toyota_auto_lock_gear_prev s3 = park"
    using h d2 by (simp_all add: s3_def update_door_state)
  have p1: "door_part s0 CS1 =
      (if LOCK_AT_SPEED \<le> vEgo (out CS1) then [make_can_msg 0x750 LOCK_CMD 0] else [])"
    using h d0 fl by (simp add: door_part_eq)
  have p2: "door_part s1 CS2 =
      (if LOCK_AT_SPEED \<le> vEgo (out CS1) then [] else [make_can_msg 0x750 LOCK_CMD 0])"
    using h d1 fl by (simp add: door_part_eq LOCK_AT_SPEED_eq)
  have p3: "door_part s2 CS3 = [make_can_msg 0x750 UNLOCK_CMD 0]"
    using h d2 fl by (simp add: door_part_eq)
  have p4: "door_part s3 CS4 = [make_can_msg 0x750 LOCK_CMD 0]"
    using h d3 fl by (simp add: door_part_eq LOCK_AT_SPEED_eq)
  from update_ok [OF nz(1), of CC1 CS1] obtain a1 where
    u1: "update ex s0 CC1 CS1 = (s1, Inr (a1, cycle_sends ex s0 CC1 CS1))"
    unfolding s1_def by blast
  from update_ok [OF nz(2), of CC2 CS2] obtain a2 where
    u2: "update ex s1 CC2 CS2 = (s2, Inr (a2, cycle_sends ex s1 CC2 CS2))"
    unfolding s2_def by blast
  from update_ok [OF nz(3), of CC3 CS3] obtain a3 where
    u3: "update ex s2 CC3 CS3 = (s3, Inr (a3, cycle_sends ex s2 CC3 CS3))"
    unfolding s3_def by blast
  from update_ok [OF nz(4), of CC4 CS4] obtain a4 where
    u4: "update ex s3 CC4 CS4 = (s4, Inr (a4, cycle_sends ex s3 CC4 CS4))"
    unfolding s4_def by blast
  have c: "door_cmds (cycle_sends ex s0 CC1 CS1) =
         (if LOCK_AT_SPEED \<le> vEgo (out CS1) then [make_can_msg 0x750 LOCK_CMD 0] else [])"
    "door_cmds (cycle_sends ex s1 CC2 CS2) =
         (if LOCK_AT_SPEED \<le> vEgo (out CS1) then [] else [make_can_msg 0x750 LOCK_CMD 0])"
    "door_cmds (cycle_sends ex s2 CC3 CS3) = [make_can_msg 0x750 UNLOCK_CMD 0]"
    "door_cmds (cycle_sends ex s3 CC4 CS4) = [make_can_msg 0x750 LOCK_CMD 0]"
    by (simp_all only: door_cmds_cycle_sends p1 p2 p3 p4)
  from u1 u2 u3 u4 c
  show "\<exists>s1 a1 m1 s2 a2 m2 s3 a3 m3 s4 a4 m4.
       update ex (CarController_init cp cparams p) CC1 CS1 = (s1, Inr (a1, m1)) \<and>
       update ex s1 CC2 CS2 = (s2, Inr (a2, m2)) \<and>
       update ex s2 CC3 CS3 = (s3, Inr (a3, m3)) \<and>
       update ex s3 CC4 CS4 = (s4, Inr (a4, m4)) \<and>
       door_cmds m1 =
         (if LOCK_AT_SPEED \<le> vEgo (out CS1) then [make_can_msg 0x750 LOCK_CMD 0] else []) \<and>
       door_cmds m2 =
         (if LOCK_AT_SPEED \<le> vEgo (out CS1) then [] else [make_can_msg 0x750 LOCK_CMD 0]) \<and>
       door_cmds m3 = [make_can_msg 0x750 UNLOCK_CMD 0] \<and>
       door_cmds m4 = [make_can_msg 0x750 LOCK_CMD 0]"
    unfolding s0_def [symmetric] by blast
qed

theorem door_automation_scenario_witness:
  "no_zero_div sample_externals (CarController_init sample_CP sample_params sample_Params) \<and>
   p_dp_toyota_auto_lock sample_Params \<and> p_dp_toyota_auto_unlock sample_Params \<and>
   \<not> doorOpen (out sample_CS_drive5) \<and> \<not> doorOpen (out sample_CS) \<and> \<not> doorOpen (out sample_CS_park) \<and>
   gearShifter (out sample_CS_drive5) = drive \<and> vEgo (out sample_CS_drive5) = 5 \<and>
   gearShifter (out sample_CS) = drive \<and> vEgo (out sample_CS) = 12 \<and>
   gearShifter (out sample_CS_park) = park \<and>
   (\<exists>s1 a1 m1 s2 a2 m2 s3 a3 m3 s4 a4 m4.
      update sample_externals (CarController_init sample_CP sample_params sample_Params)
        sample_CC sample_CS_drive5 = (s1, Inr (a1, m1)) \<and>
      update sample_externals s1 sample_CC sample_CS = (s2, Inr (a2, m2)) \<and>
      update sample_externals s2 sample_CC sample_CS_park = (s3, Inr (a3, m3)) \<and>
      update sample_externals s3 sample_CC sample_CS = (s4, Inr (a4, m4)) \<and>
      door_cmds m1 = [make_can_msg 0x750 LOCK_CMD 0] \<and>
      door_cmds m2 = [] \<and>
      door_cmds m3 = [make_can_msg 0x750 UNLOCK_CMD 0] \<and>
      door_cmds m4 = [make_can_msg 0x750 LOCK_CMD 0])"
proof -
  have h: "no_zero_div sample_externals (CarController_init sample_CP sample_params sample_Params)"
    "p_dp_toyota_auto_lock sample_Params" "p_dp_toyota_auto_unlock sample_Params"
    "\<not> doorOpen (out sample_CS_drive5)" "\<not> doorOpen (out sample_CS)" "\<not> doorOpen (out sample_CS_park)"
    "gearShifter (out sample_CS_drive5) = drive" "vEgo (out sample_CS_drive5) = 5"
    "gearShifter (out sample_CS) = drive" "vEgo (out sample_CS) = 12"
    "gearShifter (out sample_CS_park) = park"
    by (simp_all add: no_zero_div_def sample_defs sample_CS_drive5_def sample_CS_park_def)
  note th = door_automation_scenario
              [of sample_externals sample_CP sample_params sample_Params
                  sample_CS_drive5 sample_CS sample_CS_park sample_CS
                  sample_CC sample_CC sample_CC sample_CC]
  from th have l: "LOCK_AT_SPEED \<le> vEgo (out sample_CS_drive5)"
    using h(8) by simp
  from th h have "\<exists>s1 a1 m1 s2 a2 m2 s3 a3 m3 s4 a4 m4.
      update sample_externals (CarController_init sample_CP sample_params sample_Params)
        sample_CC sample_CS_drive5 = (s1, Inr (a1, m1)) \<and>
      update sample_externals s1 sample_CC sample_CS = (s2, Inr (a2, m2)) \<and>
      update sample_externals s2 sample_CC sample_CS_park = (s3, Inr (a3, m3)) \<and>
      update sample_externals s3 sample_CC sample_CS = (s4, Inr (a4, m4)) \<and>
      door_cmds m1 =
        (if LOCK_AT_SPEED \<le> vEgo (out sample_CS_drive5) then [make_can_msg 0x750 LOCK_CMD 0] else []) \<and>
      door_cmds m2 =
        (if LOCK_AT_SPEED \<le> vEgo (out sample_CS_drive5) then [] else [make_can_msg 0x750 LOCK_CMD 0]) \<and>
      door_cmds m3 = [make_can_msg 0x750 UNLOCK_CMD 0] \<and>
      door_cmds m4 = [make_can_msg 0x750 LOCK_CMD 0]"
    by blast
  with l have "\<exists>s1 a1 m1 s2 a2 m2 s3 a3 m3 s4 a4 m4.
      update sample_externals (CarController_init sample_CP sample_params sample_Params)
        sample_CC sample_CS_drive5 = (s1, Inr (a1, m1)) \<and>
      update sample_externals s1 sample_CC sample_CS = (s2, Inr (a2, m2)) \<and>
      update sample_externals s2 sample_CC sample_CS_park = (s3, Inr (a3, m3)) \<and>
      update sample_externals s3 sample_CC sample_CS = (s4, Inr (a4, m4)) \<and>
      door_cmds m1 = [make_can_msg 0x750 LOCK_CMD 0] \<and>
      door_cmds m2 = [] \<and>
      door_cmds m3 = [make_can_msg 0x750 UNLOCK_CMD 0] \<and>
      door_cmds m4 = [make_can_msg 0x750 LOCK_CMD 0]"
    by simp
  with h show ?thesis by blast
qed

text \<open>
  C8 against the code. The controller is built with the parameter
  \<^verbatim>\<open>dp_toyota_auto_lock\<close> set and \<^verbatim>\<open>dp_toyota_auto_unlock\<close> clear. Its first cycle drives
  at 12 m/s with the doors closed and sends no lock command although locking is enabled;
  its second cycle shifts into park and sends the unlock command although unlocking is
  disabled: line 76 tests the lock flag for the unlock command and line 80 the unlock flag
  for the lock command.
\<close>

theorem door_flags_swapped:
  "dp_toyota_auto_lock sample_controller_lock_only \<and>
   \<not> dp_toyota_auto_unlock sample_controller_lock_only \<and>
   \<not> doorOpen (out sample_CS) \<and> gearShifter (out sample_CS) = drive \<and>
   LOCK_AT_SPEED \<le> vEgo (out sample_CS) \<and>
   \<not> doorOpen (out sample_CS_park) \<and> gearShifter (out sample_CS_park) = park \<and>
   (\<exists>s1 a1 m1 s2 a2 m2.
      update sample_externals sample_controller_lock_only sample_CC sample_CS = (s1, Inr (a1, m1)) \<and>
      update sample_externals s1 sample_CC sample_CS_park = (s2, Inr (a2, m2)) \<and>
      door_cmds m1 = [] \<and>
      door_cmds m2 = [make_can_msg 0x750 UNLOCK_CMD 0])"
proof -
  let ?s0 = sample_controller_lock_only
  let ?s1 = "fst (update sample_externals ?s0 sample_CC sample_CS)"
  have nz: "no_zero_div sample_externals ?s0"
    by (simp add: no_zero_div_def sample_defs sample_controller_lock_only_def)
  then have nz1: "no_zero_div sample_externals ?s1" by simp
  have h: "dp_toyota_auto_lock ?s0" "\<not> dp_toyota_auto_unlock ?s0"
    "\<not> doorOpen (out sample_CS)" "gearShifter (out sample_CS) = drive"
    "LOCK_AT_SPEED \<le> vEgo (out sample_CS)"
    "\<not> doorOpen (out sample_CS_park)" "gearShifter (out sample_CS_park) = park"
    "\<not> dp_toyota_auto_lock_once ?s0" "dp_toyota_auto_lock_gear_prev ?s0 = park"
    by (simp_all add: sample_defs sample_controller_lock_only_def sample_Params_lock_only_def
          sample_CS_park_def LOCK_AT_SPEED_eq)
  have p1: "door_part ?s0 sample_CS = []"
    using h by (simp add: door_part_eq)
  have "dp_toyota_auto_lock_gear_prev ?s1 = drive" "dp_toyota_auto_lock ?s1"
    using h by (simp_all add: update_door_state)
  then have p2: "door_part ?s1 sample_CS_park = [make_can_msg 0x750 UNLOCK_CMD 0]"
    using h by (simp add: door_part_eq)
  from update_ok [OF nz, of sample_CC sample_CS] obtain a1 where
    u1: "update sample_externals ?s0 sample_CC sample_CS =
           (?s1, Inr (a1, cycle_sends sample_externals ?s0 sample_CC sample_CS))"
    by blast
  from update_ok [OF nz1, of sample_CC sample_CS_park] obtain a2 where
    u2: "update sample_externals ?s1 sample_CC sample_CS_park =
           (fst (update sample_externals ?s1 sample_CC sample_CS_park),
            Inr (a2, cycle_sends sample_externals ?s1 sample_CC sample_CS_park))"
    by blast
  have c: "door_cmds (cycle_sends sample_externals ?s0 sample_CC sample_CS) = []"
    "door_cmds (cycle_sends sample_externals ?s1 sample_CC sample_CS_park) =
       [make_can_msg 0x750 UNLOCK_CMD 0]"
    by (simp_all only: door_cmds_cycle_sends p1 p2)
  from h u1 u2 c show ?thesis by blast
qed

text \<open>
  C9. Fixed per-cycle emission order. The message list of a cycle that returns is, in this
  order: at most one door lock or unlock command, the steer torque command, at most one
  LTA steer command, at most one accel or cancel message, at most one gas interceptor
  command, at most one UI message, at most one forward-collision message, and the static
  messages that are due, in the order of the table.
\<close>

theorem emission_order:
  "no_zero_div ex s \<longrightarrow>
     (\<exists>s' acts msgs door steer lta long pedal ui fcw.
        update ex s CC CS = (s', Inr (acts, msgs)) \<and>
        msgs = door @ [steer] @ lta @ long @ pedal @ ui @ fcw @ static_part ex s \<and>
        list_all is_door_cmd door \<and> length door \<le> 1 \<and>
        is_steer_cmd steer \<and>
        list_all is_lta_cmd lta \<and> length lta \<le> 1 \<and>
        list_all is_long_cmd long \<and> length long \<le> 1 \<and>
        list_all is_gas_cmd pedal \<and> length pedal \<le> 1 \<and>
        list_all is_ui_cmd ui \<and> length ui \<le> 1 \<and>
        list_all is_fcw_cmd fcw \<and> length fcw \<le> 1)"
proof
  assume "no_zero_div ex s"
  from update_ok [OF this] obtain acts where
    u: "update ex s CC CS = (fst (update ex s CC CS), Inr (acts, cycle_sends ex s CC CS))"
    by blast
  from steer_part_kind obtain steer lta where
    st: "steer_part ex s CC CS = [steer] @ lta" "is_steer_cmd steer"
      "list_all is_lta_cmd lta" "length lta \<le> 1"
    by blast
  from hud_part_kind obtain ui fcw where
    hd: "hud_part s CC CS = ui @ fcw" "list_all is_ui_cmd ui" "length ui \<le> 1"
      "list_all is_fcw_cmd fcw" "length fcw \<le> 1"
    by blast
  have "cycle_sends ex s CC CS =
      door_part s CS @ [steer] @ lta @ long_part ex s CC CS @ gas_part ex s CC CS @ ui @ fcw @
      static_part ex s"
    by (simp add: cycle_sends_def st(1) hd(1))
  with u st hd door_part_kind [of s CS] long_part_kind [of ex s CC CS] gas_part_kind [of ex s CC CS]
  show "\<exists>s' acts msgs door steer lta long pedal ui fcw.
        update ex s CC CS = (s', Inr (acts, msgs)) \<and>
        msgs = door @ [steer] @ lta @ long @ pedal @ ui @ fcw @ static_part ex s \<and>
        list_all is_door_cmd door \<and> length door \<le> 1 \<and>
        is_steer_cmd steer \<and>
        list_all is_lta_cmd lta \<and> length lta \<le> 1 \<and>
        list_all is_long_cmd long \<and> length long \<le> 1 \<and>
        list_all is_gas_cmd pedal \<and> length pedal \<le> 1 \<and>
        list_all is_ui_cmd ui \<and> length ui \<le> 1 \<and>
        list_all is_fcw_cmd fcw \<and> length fcw \<le> 1"
    by blast
qed

theorem emission_order_witness:
  "no_zero_div sample_externals sample_controller \<and>
   static_part sample_externals sample_controller =
     [make_can_msg 0x128 [0xf4, 0x01, 0x90, 0x83, 0x00, 0x37] 1] \<and>
   (\<exists>s' acts msgs door steer lta long pedal ui fcw.
      update sample_externals sample_controller sample_CC sample_CS = (s', Inr (acts, msgs)) \<and>
      msgs = door @ [steer] @ lta @ long @ pedal @ ui @ fcw @
             [make_can_msg 0x128 [0xf4, 0x01, 0x90, 0x83, 0x00, 0x37] 1] \<and>
      list_all is_door_cmd door \<and> length door \<le> 1 \<and>
      is_steer_cmd steer \<and>
      list_all is_lta_cmd lta \<and> length lta \<le> 1 \<and>
      list_all is_long_cmd long \<and> length long \<le> 1 \<and>
      list_all is_gas_cmd pedal \<and> length pedal \<le> 1 \<and>
      list_all is_ui_cmd ui \<and> length ui \<le> 1 \<and>
      list_all is_fcw_cmd fcw \<and> length fcw \<le> 1)"
proof -
  have st: "static_part sample_externals sample_controller =
     [make_can_msg 0x128 [0xf4, 0x01, 0x90, 0x83, 0x00, 0x37] 1]"
    by (simp add: static_part_def sample_defs)
  from emission_order [of sample_externals sample_controller sample_CC sample_CS]
    sample_no_zero_div
  show ?thesis
    unfolding st by blast
qed

text \<open>
  C10, as the specification words it, fails where lateral control is not active: on an
  angle-controlled TSS2 vehicle at frame 0 with the wheel at 10 degrees and no lateral
  request, the stored angle becomes 10 while the LTA message of the cycle carries 0.
\<close>

theorem lta_message_angle_counterexample:
  "last_angle (fst (update sample_externals sample_controller_angle sample_CC_lat_off sample_CS_angle10)) = 10 \<and>
   create_lta_steer_command 0 False 0 0 \<in>
     set (cycle_sends sample_externals sample_controller_angle sample_CC_lat_off sample_CS_angle10) \<and>
   (\<exists>acts. update sample_externals sample_controller_angle sample_CC_lat_off sample_CS_angle10 =
      (fst (update sample_externals sample_controller_angle sample_CC_lat_off sample_CS_angle10),
       Inr (acts, cycle_sends sample_externals sample_controller_angle sample_CC_lat_off sample_CS_angle10)))"
proof -
  have nz: "no_zero_div sample_externals sample_controller_angle"
    by (simp add: no_zero_div_def sample_defs sample_controller_angle_def)
  have la: "\<not> lat_active sample_CC_lat_off sample_CS_angle10"
    by (simp add: lat_active_def sample_defs sample_CC_lat_off_def)
  have 1: "last_angle (fst (update sample_externals sample_controller_angle sample_CC_lat_off
                              sample_CS_angle10)) = 10"
    using la
    by (simp add: update_last_angle before_static_last_angle)
       (simp add: sample_defs sample_controller_angle_def sample_CS_angle10_def clip_def
          MAX_STEER_ANGLE_def)
  have 2: "create_lta_steer_command 0 False 0 0 \<in>
     set (cycle_sends sample_externals sample_controller_angle sample_CC_lat_off sample_CS_angle10)"
    using la
    by (simp add: lta_in_cycle_sends) (simp add: sample_defs sample_controller_angle_def)
  from 1 2 update_ok [OF nz, of sample_CC_lat_off sample_CS_angle10] show ?thesis
    by simp
qed

text \<open>
  C10, amended. The stored angle is 0 at construction; a cycle keeps it within 94.9461
  degrees of 0, so it is within that bound after any sequence of cycles from
  construction. The echoed \<^verbatim>\<open>steeringAngleDeg\<close> of a returning cycle is the stored angle.
  An LTA message carries the stored angle when LTA is active (lateral control active on an
  angle-controlled vehicle) and 0 otherwise. So no echoed or sent angle exceeds the bound.
\<close>

theorem commanded_angle_bound:
  "last_angle (CarController_init cp cparams p) = 0 \<and> MAX_STEER_ANGLE = 94.9461 \<and>
   \<bar>last_angle (run ex (CarController_init cp cparams p) cycles)\<bar> \<le> MAX_STEER_ANGLE \<and>
   (\<bar>last_angle s\<bar> \<le> MAX_STEER_ANGLE \<longrightarrow>
      \<bar>last_angle (fst (update ex s CC CS))\<bar> \<le> MAX_STEER_ANGLE \<and>
      (\<forall>s' acts msgs. update ex s CC CS = (s', Inr (acts, msgs)) \<longrightarrow>
         Actuators.steeringAngleDeg acts = last_angle s' \<and>
         \<bar>Actuators.steeringAngleDeg acts\<bar> \<le> MAX_STEER_ANGLE \<and>
         (\<forall>a act n x. create_lta_steer_command a act n x \<in> set msgs \<longrightarrow>
            act = (lat_active CC CS \<and> steerControlType (CP s) = angle) \<and>
            a = (if act then last_angle s' else 0) \<and> \<bar>a\<bar> \<le> MAX_STEER_ANGLE)))"
proof (intro conjI impI allI)
  show "last_angle (CarController_init cp cparams p) = 0"
    by (simp add: CarController_init_def)
  show "MAX_STEER_ANGLE = 94.9461"
    by (simp add: MAX_STEER_ANGLE_def)
  have "\<bar>last_angle (CarController_init cp cparams p)\<bar> \<le> MAX_STEER_ANGLE"
    by (simp add: CarController_init_def MAX_STEER_ANGLE_def)
  then show "\<bar>last_angle (run ex (CarController_init cp cparams p) cycles)\<bar> \<le> MAX_STEER_ANGLE"
    by (rule run_last_angle_bound)
next
  assume "\<bar>last_angle s\<bar> \<le> MAX_STEER_ANGLE"
  then show "\<bar>last_angle (fst (update ex s CC CS))\<bar> \<le> MAX_STEER_ANGLE"
    by (rule update_last_angle_bound)
next
  fix s' acts msgs
  assume b: "\<bar>last_angle s\<bar> \<le> MAX_STEER_ANGLE"
    and u: "update ex s CC CS = (s', Inr (acts, msgs))"
  have s': "s' = fst (update ex s CC CS)" and m: "msgs = cycle_sends ex s CC CS"
    using update_Inr_sends [OF u] by simp_all
  have b': "\<bar>last_angle s'\<bar> \<le> MAX_STEER_ANGLE"
    unfolding s' using b by (rule update_last_angle_bound)
  show e: "Actuators.steeringAngleDeg acts = last_angle s'"
    using update_Inr(6) [OF u] .
  show "\<bar>Actuators.steeringAngleDeg acts\<bar> \<le> MAX_STEER_ANGLE"
    using e b' by simp
  fix a act n x
  assume "create_lta_steer_command a act n x \<in> set msgs"
  then have l: "act = (lat_active CC CS \<and> steerControlType (CP s) = angle)"
    "a = (if act then last_angle s' else 0)"
    unfolding m s' by (simp_all add: lta_in_cycle_sends)
  show "act = (lat_active CC CS \<and> steerControlType (CP s) = angle)" by (rule l)
  show "a = (if act then last_angle s' else 0)" by (rule l)
  show "\<bar>a\<bar> \<le> MAX_STEER_ANGLE"
    using l(2) b' by (simp add: MAX_STEER_ANGLE_def)
qed

theorem commanded_angle_bound_witness:
  "\<bar>last_angle sample_controller_angle\<bar> \<le> MAX_STEER_ANGLE \<and>
   lat_active sample_CC_angle200 sample_CS \<and>
   steerControlType (CP sample_controller_angle) = angle \<and>
   (\<exists>s' acts msgs.
      update sample_externals sample_controller_angle sample_CC_angle200 sample_CS = (s', Inr (acts, msgs)) \<and>
      last_angle s' = 94.9461 \<and> Actuators.steeringAngleDeg acts = 94.9461 \<and>
      create_lta_steer_command 94.9461 True 0 100 \<in> set msgs \<and>
      \<bar>Actuators.steeringAngleDeg acts\<bar> \<le> MAX_STEER_ANGLE)"
proof -
  have nz: "no_zero_div sample_externals sample_controller_angle"
    by (simp add: no_zero_div_def sample_defs sample_controller_angle_def)
  have h: "\<bar>last_angle sample_controller_angle\<bar> \<le> MAX_STEER_ANGLE"
    "lat_active sample_CC_angle200 sample_CS"
    "steerControlType (CP sample_controller_angle) = angle"
    by (simp_all add: sample_defs sample_controller_angle_def sample_CC_angle200_def
          MAX_STEER_ANGLE_def lat_active_def MAX_USER_TORQUE_def)
  from update_ok [OF nz, of sample_CC_angle200 sample_CS] obtain acts where
    u: "update sample_externals sample_controller_angle sample_CC_angle200 sample_CS =
          (fst (update sample_externals sample_controller_angle sample_CC_angle200 sample_CS),
           Inr (acts, cycle_sends sample_externals sample_controller_angle sample_CC_angle200 sample_CS))"
    by blast
  let ?s' = "fst (update sample_externals sample_controller_angle sample_CC_angle200 sample_CS)"
  have la: "last_angle ?s' = 94.9461"
    using h(2)
    by (simp add: update_last_angle before_static_last_angle)
       (simp add: sample_defs sample_controller_angle_def sample_CC_angle200_def clip_def
          MAX_STEER_ANGLE_def)
  have lta: "create_lta_steer_command 94.9461 True 0 100 \<in>
      set (cycle_sends sample_externals sample_controller_angle sample_CC_angle200 sample_CS)"
    using h(2,3)
    by (simp add: lta_in_cycle_sends la)
       (simp add: sample_defs sample_controller_angle_def sample_CC_angle200_def
          MAX_DRIVER_TORQUE_ALLOWANCE_def)
  from commanded_angle_bound
         [of sample_CP sample_params sample_Params sample_externals "[]" sample_controller_angle
             sample_CC_angle200 sample_CS] h(1) u
  have e: "Actuators.steeringAngleDeg acts = last_angle ?s' \<and>
           \<bar>Actuators.steeringAngleDeg acts\<bar> \<le> MAX_STEER_ANGLE"
    by blast
  then have e2: "Actuators.steeringAngleDeg acts = 94.9461" using la by simp
  from h u la lta e e2 show ?thesis by blast
qed


end
